theory Spec2Isabelle
  imports Main "HOL-Library.Word"
begin

unbundle bit_operations_syntax

section \<open>Data model of the overlay node (p2p.go)\<close>

text \<open>
  Go byte slices (\<^verbatim>\<open>net.IP\<close>, \<^verbatim>\<open>net.HardwareAddr\<close>) are lists of 8-bit words; the nil
  slice and the empty slice are both \<open>[]\<close> (the program only ever takes their length,
  their \<^verbatim>\<open>String()\<close> or compares them with nil after a parser that returns nil or a
  non-empty slice). A Go \<^verbatim>\<open>string\<close> is a byte sequence and is a HOL \<open>string\<close>.
\<close>

type_synonym byte = "8 word"
type_synonym IP = "byte list"
type_synonym HardwareAddr = "byte list"

text \<open>
  A \<^verbatim>\<open>*net.UDPAddr\<close> is used by the program in two ways only: it is handed to
  \<^verbatim>\<open>UDPSocket.SendMessage\<close> as a destination, and its \<^verbatim>\<open>String()\<close> form is compared
  with \<^verbatim>\<open>CleanAddr\<close>. It is represented by that canonical \<^verbatim>\<open>String()\<close> form; a nil
  pointer is \<open>None\<close>.
\<close>

datatype UDPAddr = UDPAddr string

fun UDPAddr_String :: "UDPAddr \<Rightarrow> string" where
  "UDPAddr_String (UDPAddr s) = s"

text \<open>\<^verbatim>\<open>type NetworkPeer struct\<close>, lines 59-68.\<close>

record NetworkPeer =
  Unknown :: bool
  Handshaked :: bool
  CleanAddr :: string
  ProxyID :: int
  Forwarder :: "UDPAddr option"
  PeerAddr :: "UDPAddr option"
  PeerLocalIP :: IP
  PeerHW :: HardwareAddr

text \<open>The zero value of the struct, as \<^verbatim>\<open>var newPeer NetworkPeer\<close> creates it.\<close>

definition NetworkPeer_zero :: NetworkPeer where
  "NetworkPeer_zero =
     \<lparr>Unknown = False, Handshaked = False, CleanAddr = [], ProxyID = 0,
      Forwarder = None, PeerAddr = None, PeerLocalIP = [], PeerHW = []\<rparr>"

text \<open>
  Overlay messages come from the package \<^verbatim>\<open>p2p/udpcs\<close> and their type constants from
  \<^verbatim>\<open>p2p/commons\<close>. The handler only switches on the header type, with the cases
  \<^verbatim>\<open>MT_INTRO\<close>, \<^verbatim>\<open>MT_NENC\<close> and \<^verbatim>\<open>default\<close>, and reads the payload.
\<close>

datatype MSG_TYPE = MT_INTRO | MT_NENC | MT_OTHER

record P2PMessage =
  Header_Type :: MSG_TYPE
  Data :: string

text \<open>
  The UDP client (\<^verbatim>\<open>udpcs.UDPClient\<close>) is observed through the datagrams handed to
  \<^verbatim>\<open>SendMessage\<close>, in order; the TAP device through the packets handed to
  \<^verbatim>\<open>WritePacket\<close>.
\<close>

record UDPClient =
  sent :: "(P2PMessage \<times> UDPAddr option) list"

record Packet =
  Protocol :: int
  Truncated :: bool
  Packet :: string

record Interface =
  written :: "Packet list"

text \<open>\<^verbatim>\<open>type PTPCloud struct\<close>, lines 27-57 (without \<^verbatim>\<open>Interface *os.File\<close>, which nothing uses, and \<^verbatim>\<open>LocalIPs\<close>, which only \<^verbatim>\<open>FindNetworkAddresses\<close> writes and nothing reads).\<close>

record PTPCloud =
  IP :: string
  Mac :: string
  HardwareAddr :: HardwareAddr
  Mask :: string
  DeviceName :: string
  IPTool :: string
  Device :: "Interface option"
  NetworkPeers :: "NetworkPeer list"
  UDPSocket :: UDPClient

text \<open>
  Two things end the process: a panic of the Go runtime, and \<^verbatim>\<open>os.Exit\<close> (which
  \<^verbatim>\<open>log.Fatalf\<close> calls with status 1 after printing). Both are values of the model. A Go
  \<^verbatim>\<open>error\<close> value is its message.
\<close>

datatype halt = Panic_slice_bounds | os_Exit int

type_synonym go_error = string

section \<open>Peer table\<close>

subsection \<open>SyncPeers, lines 372-390\<close>

text \<open>The inner loop: \<^verbatim>\<open>found\<close> becomes true when some peer has the endpoint.\<close>

fun SyncPeers_found :: "string \<Rightarrow> NetworkPeer list \<Rightarrow> bool \<Rightarrow> bool" where
  "SyncPeers_found addr [] found = found"
| "SyncPeers_found addr (peer # rest) found =
     SyncPeers_found addr rest (if CleanAddr peer = addr then True else found)"

text \<open>
  The outer loop over \<^verbatim>\<open>catched\<close>; the inner loop reads the table as already extended.
  The counter is a Go \<^verbatim>\<open>int\<close>; it is bounded by \<^verbatim>\<open>len(catched)\<close> and cannot overflow.
\<close>

fun SyncPeers_loop :: "string list \<Rightarrow> NetworkPeer list \<Rightarrow> int \<Rightarrow> int \<times> NetworkPeer list" where
  "SyncPeers_loop [] peers c = (c, peers)"
| "SyncPeers_loop (addr # rest) peers c =
     (if \<not> SyncPeers_found addr peers False
      then SyncPeers_loop rest
             (peers @ [NetworkPeer_zero\<lparr>CleanAddr := addr, Unknown := True\<rparr>]) (c + 1)
      else SyncPeers_loop rest peers c)"

definition SyncPeers :: "string list \<Rightarrow> PTPCloud \<Rightarrow> int \<times> PTPCloud" where
  "SyncPeers catched ptp =
     (case SyncPeers_loop catched (NetworkPeers ptp) 0 of
        (c, peers) \<Rightarrow> (c, ptp\<lparr>NetworkPeers := peers\<rparr>))"

subsection \<open>PurgePeers, lines 350-367\<close>

fun PurgePeers_found :: "NetworkPeer \<Rightarrow> string list \<Rightarrow> bool \<Rightarrow> bool" where
  "PurgePeers_found peer [] found = found"
| "PurgePeers_found peer (addr # rest) found =
     PurgePeers_found peer rest (if addr = CleanAddr peer then True else found)"

text \<open>The first loop collects in \<^verbatim>\<open>remove\<close> the indices of the peers not found.\<close>

fun PurgePeers_collect :: "string list \<Rightarrow> NetworkPeer list \<Rightarrow> nat \<Rightarrow> nat list \<Rightarrow> nat list" where
  "PurgePeers_collect catched [] i remove = remove"
| "PurgePeers_collect catched (peer # rest) i remove =
     PurgePeers_collect catched rest (i + 1)
       (if \<not> PurgePeers_found peer catched False then remove @ [i] else remove)"

text \<open>
  \<^verbatim>\<open>append(s[:i], s[i+1:]...)\<close>: the slice expression \<^verbatim>\<open>s[i+1:]\<close> panics when
  \<^verbatim>\<open>i+1 > len(s)\<close>; otherwise element \<open>i\<close> is cut out.
\<close>

definition delete_at :: "nat \<Rightarrow> 'a list \<Rightarrow> halt + 'a list" where
  "delete_at i s = (if i + 1 > length s then Inl Panic_slice_bounds
                    else Inr (take i s @ drop (i + 1) s))"

text \<open>
  The second loop is \<^verbatim>\<open>for i := range remove\<close>: with one loop variable, \<open>i\<close> runs over
  the positions \<open>0, 1, ..., len(remove) - 1\<close> of the slice, not over its elements.
\<close>

fun PurgePeers_delete :: "nat list \<Rightarrow> NetworkPeer list \<Rightarrow> halt + NetworkPeer list" where
  "PurgePeers_delete [] peers = Inr peers"
| "PurgePeers_delete (i # rest) peers =
     (case delete_at i peers of
        Inl e \<Rightarrow> Inl e
      | Inr peers' \<Rightarrow> PurgePeers_delete rest peers')"

definition PurgePeers :: "string list \<Rightarrow> PTPCloud \<Rightarrow> halt + PTPCloud" where
  "PurgePeers catched ptp =
     (let remove = PurgePeers_collect catched (NetworkPeers ptp) 0 [];
          remove = rev (sort remove)
      in case PurgePeers_delete [0..<length remove] (NetworkPeers ptp) of
           Inl e \<Rightarrow> Inl e
         | Inr peers \<Rightarrow> Inr (ptp\<lparr>NetworkPeers := peers\<rparr>))"

subsection \<open>AddPeer, lines 427-449\<close>

text \<open>The loop updates every entry with the endpoint in place and records \<^verbatim>\<open>found\<close>.\<close>

fun AddPeer_loop ::
  "UDPAddr \<Rightarrow> IP \<Rightarrow> HardwareAddr \<Rightarrow> NetworkPeer list \<Rightarrow> bool \<Rightarrow> bool \<times> NetworkPeer list" where
  "AddPeer_loop addr ip mac [] found = (found, [])"
| "AddPeer_loop addr ip mac (peer # rest) found =
     (if CleanAddr peer = UDPAddr_String addr
      then (case AddPeer_loop addr ip mac rest True of
              (found', rest') \<Rightarrow>
                (found', peer\<lparr>PeerAddr := Some addr, PeerLocalIP := ip, PeerHW := mac,
                               Unknown := False, Handshaked := True\<rparr> # rest'))
      else (case AddPeer_loop addr ip mac rest found of
              (found', rest') \<Rightarrow> (found', peer # rest')))"

definition AddPeer :: "UDPAddr \<Rightarrow> IP \<Rightarrow> HardwareAddr \<Rightarrow> PTPCloud \<Rightarrow> PTPCloud" where
  "AddPeer addr ip mac ptp =
     (case AddPeer_loop addr ip mac (NetworkPeers ptp) False of
        (found, peers) \<Rightarrow>
          if \<not> found
          then ptp\<lparr>NetworkPeers := peers @
                 [NetworkPeer_zero\<lparr>CleanAddr := UDPAddr_String addr, PeerAddr := Some addr,
                                   PeerLocalIP := ip, PeerHW := mac,
                                   Unknown := False, Handshaked := True\<rparr>]\<rparr>
          else ptp\<lparr>NetworkPeers := peers\<rparr>)"

subsection \<open>IsPeerUnknown, lines 474-481\<close>

fun IsPeerUnknown_loop :: "UDPAddr \<Rightarrow> NetworkPeer list \<Rightarrow> bool" where
  "IsPeerUnknown_loop addr [] = True"
| "IsPeerUnknown_loop addr (peer # rest) =
     (if CleanAddr peer = UDPAddr_String addr then Unknown peer
      else IsPeerUnknown_loop addr rest)"

definition IsPeerUnknown :: "UDPAddr \<Rightarrow> PTPCloud \<Rightarrow> bool" where
  "IsPeerUnknown addr ptp = IsPeerUnknown_loop addr (NetworkPeers ptp)"

section \<open>The environment\<close>

text \<open>
  What the engine calls outside this file, as functions whose results the engine cannot
  choose: the Go standard library's resolver, IP parser, file reader and subprocess
  runner, the YAML decoder, the TAP driver, and the codec and UDP client of the
  packages \<^verbatim>\<open>p2p/udpcs\<close>. An \<open>Inl\<close> or \<open>Some\<close> error is a non-nil \<^verbatim>\<open>err\<close>.
\<close>

record Env =
  ResolveUDPAddr :: "string \<Rightarrow> go_error + UDPAddr"
  ParseIP :: "string \<Rightarrow> IP"
  P2PMessageFromBytes :: "string \<Rightarrow> go_error + P2PMessage"
  SendMessage_result :: "P2PMessage \<Rightarrow> UDPAddr option \<Rightarrow> int \<times> go_error option"
  ReadFile :: "string \<Rightarrow> go_error + string"
  yaml_Unmarshal :: "string \<Rightarrow> PTPCloud \<Rightarrow> PTPCloud \<times> go_error option"
  tuntap_Open :: "string \<Rightarrow> Interface option \<times> go_error option"
  exec_Run :: "string \<Rightarrow> string list \<Rightarrow> go_error option"

text \<open>
  \<^verbatim>\<open>UDPSocket.SendMessage(msg, addr)\<close>: the datagram is recorded as handed to the
  socket; what the call returns is the environment's.
\<close>

definition SendMessage ::
  "Env \<Rightarrow> P2PMessage \<Rightarrow> UDPAddr option \<Rightarrow> PTPCloud \<Rightarrow> (int \<times> go_error option) \<times> PTPCloud" where
  "SendMessage env msg addr ptp =
     (SendMessage_result env msg addr,
      ptp\<lparr>UDPSocket := (UDPSocket ptp)\<lparr>sent := sent (UDPSocket ptp) @ [(msg, addr)]\<rparr>\<rparr>)"

text \<open>
  Modelled from the spec: \<^verbatim>\<open>udpcs.CreateIntroP2PMessage\<close> is not in the source file;
  the spec describes it as the constructor of an \<^verbatim>\<open>MT_INTRO\<close> message from a string
  payload.
\<close>

definition CreateIntroP2PMessage :: "string \<Rightarrow> int \<Rightarrow> P2PMessage" where
  "CreateIntroP2PMessage intro n = \<lparr>Header_Type = MT_INTRO, Data = intro\<rparr>"

text \<open>PrepareIntroductionMessage, lines 342-346.\<close>

definition PrepareIntroductionMessage :: "string \<Rightarrow> string \<Rightarrow> P2PMessage" where
  "PrepareIntroductionMessage ip mac = CreateIntroP2PMessage (ip @ '','' @ mac) 0"

section \<open>Hardware addresses: formatting and parsing (Go's package net and fmt)\<close>

text \<open>\<^verbatim>\<open>const hexDigit = "0123456789abcdef"\<close>, indexed.\<close>

definition hexDigit :: "nat \<Rightarrow> char" where
  "hexDigit n = ''0123456789abcdef'' ! n"

text \<open>
  The verb \<^verbatim>\<open>%02x\<close> of \<^verbatim>\<open>fmt.Sprintf\<close> on a byte: two lower-case hexadecimal digits,
  the high nibble first.
\<close>

definition fmt_02x :: "byte \<Rightarrow> string" where
  "fmt_02x b = [hexDigit (unat (drop_bit 4 b)), hexDigit (unat (b AND 0xF))]"

text \<open>
  \<^verbatim>\<open>func (a HardwareAddr) String() string\<close>: the empty string for an address of length
  0, otherwise the bytes as \<^verbatim>\<open>hexDigit[b>>4], hexDigit[b&0xF]\<close> with a colon before every
  byte but the first.
\<close>

fun HardwareAddr_String_loop :: "nat \<Rightarrow> byte list \<Rightarrow> string \<Rightarrow> string" where
  "HardwareAddr_String_loop i [] buf = buf"
| "HardwareAddr_String_loop i (b # rest) buf =
     HardwareAddr_String_loop (i + 1) rest
       ((if i > 0 then buf @ '':'' else buf)
          @ [hexDigit (unat (drop_bit 4 b))] @ [hexDigit (unat (b AND 0xF))])"

definition HardwareAddr_String :: "HardwareAddr \<Rightarrow> string" where
  "HardwareAddr_String a = (if length a = 0 then [] else HardwareAddr_String_loop 0 a [])"

text \<open>
  \<^verbatim>\<open>xtoi\<close> of package net: the hexadecimal number at the start of a string, the number
  of characters read, and whether it succeeded (at least one digit, value below
  \<^verbatim>\<open>big = 0xFFFFFF\<close>).
\<close>

definition hex_value :: "char \<Rightarrow> nat option" where
  "hex_value c =
     (let v = (of_char c :: nat) in
      if 48 \<le> v \<and> v \<le> 57 then Some (v - 48)
      else if 97 \<le> v \<and> v \<le> 102 then Some (v - 97 + 10)
      else if 65 \<le> v \<and> v \<le> 70 then Some (v - 65 + 10)
      else None)"

fun xtoi_loop :: "string \<Rightarrow> nat \<Rightarrow> nat \<Rightarrow> nat \<times> nat \<times> bool" where
  "xtoi_loop [] n i = (if i = 0 then (0, i, False) else (n, i, True))"
| "xtoi_loop (c # rest) n i =
     (case hex_value c of
        None \<Rightarrow> (if i = 0 then (0, i, False) else (n, i, True))
      | Some d \<Rightarrow>
          (let n' = n * 16 + d in
           if n' \<ge> 0xFFFFFF then (0, i, False) else xtoi_loop rest n' (i + 1)))"

definition xtoi :: "string \<Rightarrow> nat \<times> nat \<times> bool" where
  "xtoi s = xtoi_loop s 0 0"

text \<open>
  \<^verbatim>\<open>xtoi2(s, e)\<close>: the next two hexadecimal digits of \<open>s\<close> as a byte; when \<open>s\<close> is longer
  than two characters the third must be \<open>e\<close>.
\<close>

definition xtoi2 :: "string \<Rightarrow> char \<Rightarrow> byte \<times> bool" where
  "xtoi2 s e =
     (if length s > 2 \<and> s ! 2 \<noteq> e then (0, False)
      else (case xtoi (take 2 s) of (n, ei, ok) \<Rightarrow> (of_nat n, ok \<and> ei = 2)))"

text \<open>
  \<^verbatim>\<open>net.ParseMAC\<close>. The first form has \<open>n\<close> groups of two digits separated by colons or
  by hyphens, read at the offsets \<open>0, 3, 6, ...\<close>; the second has groups of four digits
  separated by dots, read at the offsets \<open>0, 5, 10, ...\<close>, two bytes each. \<open>n\<close> is 6, 8
  or 20.
\<close>

fun ParseMAC_pairs :: "string \<Rightarrow> char \<Rightarrow> nat list \<Rightarrow> go_error + HardwareAddr" where
  "ParseMAC_pairs s e [] = Inr []"
| "ParseMAC_pairs s e (x # xs) =
     (case xtoi2 (drop x s) e of
        (b, ok) \<Rightarrow>
          if \<not> ok then Inl ''invalid MAC address''
          else (case ParseMAC_pairs s e xs of
                  Inl err \<Rightarrow> Inl err
                | Inr hw \<Rightarrow> Inr (b # hw)))"

fun ParseMAC_quads :: "string \<Rightarrow> char \<Rightarrow> nat list \<Rightarrow> go_error + HardwareAddr" where
  "ParseMAC_quads s e [] = Inr []"
| "ParseMAC_quads s e (x # xs) =
     (case xtoi2 (take 2 (drop x s)) (CHR 0x00) of
        (b1, ok1) \<Rightarrow>
          if \<not> ok1 then Inl ''invalid MAC address''
          else (case xtoi2 (drop (x + 2) s) e of
                  (b2, ok2) \<Rightarrow>
                    if \<not> ok2 then Inl ''invalid MAC address''
                    else (case ParseMAC_quads s e xs of
                            Inl err \<Rightarrow> Inl err
                          | Inr hw \<Rightarrow> Inr (b1 # b2 # hw))))"

definition ParseMAC :: "string \<Rightarrow> go_error + HardwareAddr" where
  "ParseMAC s =
     (if length s < 14 then Inl ''invalid MAC address''
      else if s ! 2 = CHR '':'' \<or> s ! 2 = CHR ''-'' then
        (if (length s + 1) mod 3 \<noteq> 0 then Inl ''invalid MAC address''
         else (let n = (length s + 1) div 3 in
               if n \<noteq> 6 \<and> n \<noteq> 8 \<and> n \<noteq> 20 then Inl ''invalid MAC address''
               else ParseMAC_pairs s (s ! 2) (map (\<lambda>i. 3 * i) [0..<n])))
      else if s ! 4 = CHR ''.'' then
        (if (length s + 1) mod 5 \<noteq> 0 then Inl ''invalid MAC address''
         else (let n = 2 * (length s + 1) div 5 in
               if n \<noteq> 6 \<and> n \<noteq> 8 \<and> n \<noteq> 20 then Inl ''invalid MAC address''
               else ParseMAC_quads s (s ! 4) (map (\<lambda>i. 5 * i) [0..<n div 2])))
      else Inl ''invalid MAC address'')"

section \<open>GenerateMAC, lines 408-423\<close>

text \<open>
  The argument is what \<^verbatim>\<open>rand.Read(buf)\<close> did to the six-byte buffer: an error, or the
  buffer filled. \<^verbatim>\<open>buf[0] |= 2\<close> writes the buffer and nothing reads byte 0 afterwards,
  so the run of the function is given with the buffer as it stands when the function
  returns, next to the two values returned. On an error of \<^verbatim>\<open>rand.Read\<close> the function
  returns before that line; the buffer is then taken as \<^verbatim>\<open>make\<close> left it.
\<close>

definition GenerateMAC_run :: "go_error + byte list \<Rightarrow> (string \<times> HardwareAddr) \<times> byte list" where
  "GenerateMAC_run rand_Read =
     (case rand_Read of
        Inl err \<Rightarrow> (([], []), replicate 6 0)
      | Inr buf0 \<Rightarrow>
          (let buf = buf0[0 := (buf0 ! 0) OR 2];
               mac = ''06:'' @ fmt_02x (buf ! 1) @ '':'' @ fmt_02x (buf ! 2) @ '':''
                       @ fmt_02x (buf ! 3) @ '':'' @ fmt_02x (buf ! 4) @ '':''
                       @ fmt_02x (buf ! 5)
           in case ParseMAC mac of
                Inl err \<Rightarrow> (([], []), buf)
              | Inr hw \<Rightarrow> ((mac, hw), buf)))"

text \<open>What the caller of \<^verbatim>\<open>GenerateMAC()\<close> receives: the string and the address.\<close>

definition GenerateMAC :: "go_error + byte list \<Rightarrow> string \<times> HardwareAddr" where
  "GenerateMAC rand_Read = fst (GenerateMAC_run rand_Read)"

section \<open>Introductions\<close>

subsection \<open>ParseIntroString, lines 455-472\<close>

text \<open>
  \<^verbatim>\<open>strings.Split(s, ",")\<close>, for a separator of one character: the pieces between the
  separators, one more than there are separators (the empty string gives one empty piece).
\<close>

fun strings_Split :: "string \<Rightarrow> char \<Rightarrow> string list" where
  "strings_Split [] sep = [[]]"
| "strings_Split (c # rest) sep =
     (if c = sep then [] # strings_Split rest sep
      else (case strings_Split rest sep of
              [] \<Rightarrow> [[c]]
            | part # parts \<Rightarrow> (c # part) # parts))"

text \<open>The result \<^verbatim>\<open>nil, nil\<close> is \<open>([], [])\<close>.\<close>

definition ParseIntroString :: "Env \<Rightarrow> string \<Rightarrow> IP \<times> HardwareAddr" where
  "ParseIntroString env intro =
     (let parts = strings_Split intro (CHR '','') in
      if length parts \<noteq> 2 then ([], [])
      else (let ip = ParseIP env (parts ! 0) in
            if ip = [] then ([], [])
            else (case ParseMAC (parts ! 1) of
                    Inl err \<Rightarrow> ([], [])
                  | Inr mac \<Rightarrow> (ip, mac))))"

subsection \<open>IntroducePeers, lines 321-340\<close>

text \<open>
  The loop ranges over the table as it was when the loop began; \<open>i\<close> is the index of
  \<open>peer\<close>, and the assignment and the send act on the engine.
\<close>

fun IntroducePeers_loop :: "Env \<Rightarrow> nat \<Rightarrow> NetworkPeer list \<Rightarrow> PTPCloud \<Rightarrow> PTPCloud" where
  "IntroducePeers_loop env i [] ptp = ptp"
| "IntroducePeers_loop env i (peer # rest) ptp =
     (if \<not> Unknown peer then IntroducePeers_loop env (i + 1) rest ptp
      else (case ResolveUDPAddr env (CleanAddr peer) of
              Inl err \<Rightarrow> IntroducePeers_loop env (i + 1) rest ptp
            | Inr addr \<Rightarrow>
                (let ptp1 = ptp\<lparr>NetworkPeers :=
                              (NetworkPeers ptp)[i := (NetworkPeers ptp ! i)\<lparr>PeerAddr := Some addr\<rparr>]\<rparr>;
                     msg = PrepareIntroductionMessage (IP ptp1) (Mac ptp1)
                 in IntroducePeers_loop env (i + 1) rest
                      (snd (SendMessage env msg (Some addr) ptp1)))))"

definition IntroducePeers :: "Env \<Rightarrow> PTPCloud \<Rightarrow> PTPCloud" where
  "IntroducePeers env ptp = IntroducePeers_loop env 0 (NetworkPeers ptp) ptp"

section \<open>Message handler and forwarding\<close>

text \<open>WriteToDevice, lines 393-406.\<close>

definition WriteToDevice :: "string \<Rightarrow> PTPCloud \<Rightarrow> PTPCloud" where
  "WriteToDevice b ptp =
     (let p = \<lparr>Protocol = 2054, Truncated = False, Packet = b\<rparr> in
      case Device ptp of
        None \<Rightarrow> ptp
      | Some d \<Rightarrow> ptp\<lparr>Device := Some (d\<lparr>written := written d @ [p]\<rparr>)\<rparr>)"

text \<open>
  HandleP2PMessage, lines 484-521. \<open>buf\<close> is \<open>count\<close> bytes long: the received bytes,
  cut or padded with zero bytes.
\<close>

definition HandleP2PMessage ::
  "Env \<Rightarrow> nat \<Rightarrow> UDPAddr \<Rightarrow> go_error option \<Rightarrow> string \<Rightarrow> PTPCloud \<Rightarrow> PTPCloud" where
  "HandleP2PMessage env count src_addr err rcv_bytes ptp =
     (if err \<noteq> None then ptp
      else (let buf = take count rcv_bytes @ replicate (count - length rcv_bytes) (CHR 0x00) in
            case P2PMessageFromBytes env buf of
              Inl des_err \<Rightarrow> ptp
            | Inr msg \<Rightarrow>
                (case Header_Type msg of
                   MT_INTRO \<Rightarrow>
                     if \<not> IsPeerUnknown src_addr ptp then ptp
                     else (case ParseIntroString env (Data msg) of
                             (ip, mac) \<Rightarrow>
                               (let ptp1 = AddPeer src_addr ip mac ptp;
                                    reply = PrepareIntroductionMessage (IP ptp1) (Mac ptp1)
                                in snd (SendMessage env reply (Some src_addr) ptp1)))
                 | MT_NENC \<Rightarrow> WriteToDevice (Data msg) ptp
                 | MT_OTHER \<Rightarrow> ptp)))"

text \<open>SendTo, lines 523-531.\<close>

fun SendTo_loop ::
  "Env \<Rightarrow> HardwareAddr \<Rightarrow> P2PMessage \<Rightarrow> NetworkPeer list \<Rightarrow> PTPCloud
     \<Rightarrow> (int \<times> go_error option) \<times> PTPCloud" where
  "SendTo_loop env dst msg [] ptp = ((0, None), ptp)"
| "SendTo_loop env dst msg (peer # rest) ptp =
     (if HardwareAddr_String (PeerHW peer) = HardwareAddr_String dst
      then SendMessage env msg (PeerAddr peer) ptp
      else SendTo_loop env dst msg rest ptp)"

definition SendTo ::
  "Env \<Rightarrow> HardwareAddr \<Rightarrow> P2PMessage \<Rightarrow> PTPCloud \<Rightarrow> (int \<times> go_error option) \<times> PTPCloud" where
  "SendTo env dst msg ptp = SendTo_loop env dst msg (NetworkPeers ptp) ptp"

section \<open>Startup and the membership loop\<close>

text \<open>CreateDevice, lines 71-125. \<^verbatim>\<open>log.Fatalf\<close> ends the process with status 1.\<close>

definition CreateDevice ::
  "Env \<Rightarrow> string \<Rightarrow> string \<Rightarrow> string \<Rightarrow> string \<Rightarrow> PTPCloud \<Rightarrow> halt + (go_error option \<times> PTPCloud)" where
  "CreateDevice env ip mac mask' device ptp0 =
     (let ptp = ptp0\<lparr>IP := ip, Mac := mac, Mask := mask', DeviceName := device\<rparr> in
      case ReadFile env ''config.yaml'' of
        Inl err \<Rightarrow> Inr (Some err, ptp)
      | Inr yamlFile \<Rightarrow>
          (case yaml_Unmarshal env yamlFile ptp of
             (ptp, Some err) \<Rightarrow> Inr (Some err, ptp)
           | (ptp, None) \<Rightarrow>
               (case tuntap_Open env (DeviceName ptp) of
                  (dev, err) \<Rightarrow>
                    (let ptp = ptp\<lparr>Device := dev\<rparr> in
                     if Device ptp = None then Inl (os_Exit 1)
                     else if exec_Run env (IPTool ptp)
                               [''link'', ''set'', ''dev'', DeviceName ptp, ''up''] \<noteq> None
                       then Inl (os_Exit 1)
                     else if exec_Run env (IPTool ptp)
                               [''addr'', ''add'', IP ptp @ ''/24'', ''dev'', DeviceName ptp] \<noteq> None
                       then Inl (os_Exit 1)
                     else if exec_Run env (IPTool ptp)
                               [''link'', ''set'', ''dev'', DeviceName ptp, ''address'', mac] \<noteq> None
                       then Inl (os_Exit 1)
                     else Inr (None, ptp)))))"

text \<open>
  \<^verbatim>\<open>main\<close> from the parsed flags (line 249) to the start of the membership loop (line
  305). It ends in one of three ways: the process exits with a status, \<^verbatim>\<open>main\<close>
  returns (which ends the process too), or the engine is set up and the loop is entered.
  \<^verbatim>\<open>new(PTPCloud)\<close> is the zero value; the calls of the DHT client and of the UDP
  socket's \<^verbatim>\<open>Init\<close> are taken to return.
\<close>

datatype startup = Exited int | Returned | Running PTPCloud

definition PTPCloud_zero :: PTPCloud where
  "PTPCloud_zero =
     \<lparr>IP = [], Mac = [], HardwareAddr = [], Mask = [], DeviceName = [], IPTool = [],
      Device = None, NetworkPeers = [], UDPSocket = \<lparr>sent = []\<rparr>\<rparr>"

definition main_startup ::
  "Env \<Rightarrow> string \<Rightarrow> string \<Rightarrow> string \<Rightarrow> string \<Rightarrow> go_error + byte list \<Rightarrow> startup" where
  "main_startup env argIp argMask argMac argDev rand_Read =
     (if argIp = ''none'' \<or> argMask = ''none'' \<or> argDev = ''none'' then Exited 1
      else (case (if argMac \<noteq> ''none''
                  then (case ParseMAC argMac of
                          Inl err2 \<Rightarrow> None
                        | Inr hw \<Rightarrow> Some (argMac, hw))
                  else Some (GenerateMAC rand_Read)) of
              None \<Rightarrow> Returned
            | Some (argMac, hw) \<Rightarrow>
                (let ptp = PTPCloud_zero\<lparr>HardwareAddr := hw\<rparr> in
                 case CreateDevice env argIp argMac argMask argDev ptp of
                   Inl (os_Exit status) \<Rightarrow> Exited status
                 | Inl Panic_slice_bounds \<Rightarrow> Exited 2
                 | Inr (err, ptp) \<Rightarrow> Running (ptp\<lparr>UDPSocket := \<lparr>sent = []\<rparr>\<rparr>))))"

text \<open>
  One pass of the loop body, lines 306-314, on the snapshot \<^verbatim>\<open>dhtClient.LastCatch\<close> of
  that pass. A panic in \<^verbatim>\<open>PurgePeers\<close> ends the process.
\<close>

definition membership_cycle :: "Env \<Rightarrow> string list \<Rightarrow> PTPCloud \<Rightarrow> halt + PTPCloud" where
  "membership_cycle env LastCatch ptp =
     (case PurgePeers LastCatch ptp of
        Inl e \<Rightarrow> Inl e
      | Inr ptp1 \<Rightarrow>
          (case SyncPeers LastCatch ptp1 of
             (newPeersNum, ptp2) \<Rightarrow>
               if newPeersNum > 0 then Inr (IntroducePeers env ptp2) else Inr ptp2))"

section \<open>Sequences of engine operations\<close>

text \<open>
  The methods of the engine that act on its state after startup, with their arguments,
  and the state a sequence of them builds from a given one; the sequence stops at a
  panic. (A pass of the membership loop is \<open>PurgePeers\<close>, \<open>SyncPeers\<close> and possibly
  \<open>IntroducePeers\<close> in a row.)
\<close>

datatype engine_op =
    Op_SyncPeers "string list"
  | Op_AddPeer UDPAddr IP HardwareAddr
  | Op_IntroducePeers Env
  | Op_PurgePeers "string list"
  | Op_HandleP2PMessage Env nat UDPAddr "go_error option" string
  | Op_SendTo Env HardwareAddr P2PMessage
  | Op_WriteToDevice string

fun apply_op :: "engine_op \<Rightarrow> PTPCloud \<Rightarrow> halt + PTPCloud" where
  "apply_op (Op_SyncPeers catched) ptp = Inr (snd (SyncPeers catched ptp))"
| "apply_op (Op_AddPeer addr ip mac) ptp = Inr (AddPeer addr ip mac ptp)"
| "apply_op (Op_IntroducePeers env) ptp = Inr (IntroducePeers env ptp)"
| "apply_op (Op_PurgePeers catched) ptp = PurgePeers catched ptp"
| "apply_op (Op_HandleP2PMessage env count src_addr err rcv_bytes) ptp =
     Inr (HandleP2PMessage env count src_addr err rcv_bytes ptp)"
| "apply_op (Op_SendTo env dst msg) ptp = Inr (snd (SendTo env dst msg ptp))"
| "apply_op (Op_WriteToDevice b) ptp = Inr (WriteToDevice b ptp)"

fun run_ops :: "engine_op list \<Rightarrow> PTPCloud \<Rightarrow> halt + PTPCloud" where
  "run_ops [] ptp = Inr ptp"
| "run_ops (op # ops) ptp =
     (case apply_op op ptp of
        Inl e \<Rightarrow> Inl e
      | Inr ptp' \<Rightarrow> run_ops ops ptp')"

section \<open>Properties of the peer table\<close>

text \<open>
  The two flags of a peer are complementary; a peer that has a hardware address has
  handshaked; and a table has no endpoint twice.
\<close>

definition flags_ok :: "NetworkPeer \<Rightarrow> bool" where
  "flags_ok p = (Unknown p = (\<not> Handshaked p))"

definition hw_ok :: "NetworkPeer \<Rightarrow> bool" where
  "hw_ok p = (PeerHW p = [] \<or> Handshaked p)"

definition table_ok :: "NetworkPeer list \<Rightarrow> bool" where
  "table_ok peers =
     (list_all flags_ok peers \<and> list_all hw_ok peers \<and> distinct (map CleanAddr peers))"

text \<open>What the loops of \<open>AddPeer\<close> and \<open>IntroducePeers\<close> do to one peer.\<close>

definition handshake :: "UDPAddr \<Rightarrow> IP \<Rightarrow> HardwareAddr \<Rightarrow> NetworkPeer \<Rightarrow> NetworkPeer" where
  "handshake addr ip mac peer =
     (if CleanAddr peer = UDPAddr_String addr
      then peer\<lparr>PeerAddr := Some addr, PeerLocalIP := ip, PeerHW := mac,
                 Unknown := False, Handshaked := True\<rparr>
      else peer)"

definition introduce :: "Env \<Rightarrow> NetworkPeer \<Rightarrow> NetworkPeer" where
  "introduce env peer =
     (if \<not> Unknown peer then peer
      else (case ResolveUDPAddr env (CleanAddr peer) of
              Inl err \<Rightarrow> peer
            | Inr addr \<Rightarrow> peer\<lparr>PeerAddr := Some addr\<rparr>))"

definition introductions :: "Env \<Rightarrow> P2PMessage \<Rightarrow> NetworkPeer \<Rightarrow> (P2PMessage \<times> UDPAddr option) list" where
  "introductions env msg peer =
     (if \<not> Unknown peer then []
      else (case ResolveUDPAddr env (CleanAddr peer) of
              Inl err \<Rightarrow> []
            | Inr addr \<Rightarrow> [(msg, Some addr)]))"

section \<open>Examples used to instantiate the theorems\<close>

text \<open>
  Two endpoints, a peer as \<open>SyncPeers\<close> inserts it, and a node that has been started
  with its overlay address and MAC.
\<close>

definition peer_A :: string where "peer_A = ''10.1.1.1:7000''"
definition peer_B :: string where "peer_B = ''10.2.2.2:7000''"

definition discovered :: "string \<Rightarrow> NetworkPeer" where
  "discovered addr = NetworkPeer_zero\<lparr>CleanAddr := addr, Unknown := True\<rparr>"

definition node :: PTPCloud where
  "node = PTPCloud_zero\<lparr>IP := ''10.0.0.1'', Mac := ''06:aa:aa:aa:aa:aa''\<rparr>"

text \<open>
  An environment in which the endpoint B does not resolve and every other one does,
  the codec reads every datagram as an \<^verbatim>\<open>MT_INTRO\<close> message with the datagram as its
  payload, there is no \<^verbatim>\<open>config.yaml\<close>, and the TAP driver and the IP tool succeed; and
  the same environment once B resolves too.
\<close>

definition lab_env :: Env where
  "lab_env =
     \<lparr>ResolveUDPAddr = (\<lambda>s. if s = peer_B then Inl ''no such host'' else Inr (UDPAddr s)),
      ParseIP = (\<lambda>s. if s = ''10.0.0.2'' then [0,0,0,0,0,0,0,0,0,0,255,255,10,0,0,2] else []),
      P2PMessageFromBytes = (\<lambda>b. Inr \<lparr>Header_Type = MT_INTRO, Data = b\<rparr>),
      SendMessage_result = (\<lambda>msg addr. (int (length (Data msg)), None)),
      ReadFile = (\<lambda>name. Inl ''open config.yaml: no such file or directory''),
      yaml_Unmarshal = (\<lambda>yamlFile ptp. (ptp\<lparr>IPTool := yamlFile\<rparr>, None)),
      tuntap_Open = (\<lambda>name. (Some \<lparr>written = []\<rparr>, None)),
      exec_Run = (\<lambda>tool args. None)\<rparr>"

text \<open>An overlay identity and an encapsulated frame.\<close>

definition mac_X :: HardwareAddr where "mac_X = [6, 0xbb, 0xbb, 0xbb, 0xbb, 0xbb]"
definition ip_X :: IP where "ip_X = [0,0,0,0,0,0,0,0,0,0,255,255,10,0,0,2]"

definition frame_msg :: P2PMessage where
  "frame_msg = \<lparr>Header_Type = MT_NENC, Data = ''frame''\<rparr>"

definition env_up :: Env where
  "env_up = lab_env\<lparr>ResolveUDPAddr := (\<lambda>s. Inr (UDPAddr s))\<rparr>"

section \<open>SyncPeers\<close>

lemma SyncPeers_found_iff:
  "SyncPeers_found addr peers found \<longleftrightarrow> found \<or> addr \<in> CleanAddr ` set peers"
  by (induction peers arbitrary: found) auto

lemma SyncPeers_loop_char:
  "\<exists>new. SyncPeers_loop catched peers c =
           (c + int (length new),
            peers @ map (\<lambda>a. NetworkPeer_zero\<lparr>CleanAddr := a, Unknown := True\<rparr>) new)
       \<and> distinct new \<and> set new = set catched - CleanAddr ` set peers"
proof (induction catched arbitrary: peers c)
  case Nil
  show ?case by (rule exI [of _ "[]"]) simp
next
  case (Cons addr rest)
  let ?mk = "\<lambda>a. NetworkPeer_zero\<lparr>CleanAddr := a, Unknown := True\<rparr>"
  show ?case
  proof (cases "addr \<in> CleanAddr ` set peers")
    case True
    from Cons.IH [of peers c] obtain new where
      n: "SyncPeers_loop rest peers c = (c + int (length new), peers @ map ?mk new)"
         "distinct new" "set new = set rest - CleanAddr ` set peers" by blast
    show ?thesis
      using True n by (intro exI [of _ new]) (auto simp: SyncPeers_found_iff)
  next
    case False
    from Cons.IH [of "peers @ [?mk addr]" "c + 1"] obtain new where
      n: "SyncPeers_loop rest (peers @ [?mk addr]) (c + 1) =
            (c + 1 + int (length new), (peers @ [?mk addr]) @ map ?mk new)"
         "distinct new" "set new = set rest - CleanAddr ` set (peers @ [?mk addr])" by blast
    show ?thesis
      using False n by (intro exI [of _ "addr # new"]) (auto simp: SyncPeers_found_iff)
  qed
qed

lemma SyncPeers_loop_noop:
  "set catched \<subseteq> CleanAddr ` set peers \<Longrightarrow> SyncPeers_loop catched peers c = (c, peers)"
  by (induction catched arbitrary: peers c) (auto simp: SyncPeers_found_iff)

text \<open>
  C8. For every table and snapshot, \<open>SyncPeers\<close> appends one peer for each snapshot
  endpoint that the table does not have yet, each once, as the zero peer with that
  endpoint and \<open>Unknown\<close> set, and returns how many it appended; the same call repeated
  at once returns 0 and changes nothing.
\<close>

theorem SyncPeers_idempotent:
  assumes "SyncPeers catched ptp = (c, ptp')"
  shows "\<exists>new. ptp' = ptp\<lparr>NetworkPeers := NetworkPeers ptp @
                     map (\<lambda>a. NetworkPeer_zero\<lparr>CleanAddr := a, Unknown := True\<rparr>) new\<rparr>
           \<and> distinct new
           \<and> set new = set catched - CleanAddr ` set (NetworkPeers ptp)
           \<and> c = int (length new)
           \<and> SyncPeers catched ptp' = (0, ptp')"
proof -
  let ?mk = "\<lambda>a. NetworkPeer_zero\<lparr>CleanAddr := a, Unknown := True\<rparr>"
  from SyncPeers_loop_char [of catched "NetworkPeers ptp" 0] obtain new where
    n: "SyncPeers_loop catched (NetworkPeers ptp) 0 =
          (int (length new), NetworkPeers ptp @ map ?mk new)"
       "distinct new" "set new = set catched - CleanAddr ` set (NetworkPeers ptp)" by auto
  have p: "ptp' = ptp\<lparr>NetworkPeers := NetworkPeers ptp @ map ?mk new\<rparr>"
    and c: "c = int (length new)"
    using assms n(1) by (auto simp: SyncPeers_def)
  have sub: "set catched \<subseteq> CleanAddr ` set (NetworkPeers ptp')"
  proof
    fix a assume a: "a \<in> set catched"
    show "a \<in> CleanAddr ` set (NetworkPeers ptp')"
    proof (cases "a \<in> CleanAddr ` set (NetworkPeers ptp)")
      case True then show ?thesis by (auto simp: p)
    next
      case False
      with a n(3) have "a \<in> set new" by simp
      then have "?mk a \<in> set (NetworkPeers ptp')" by (simp add: p)
      then have "CleanAddr (?mk a) \<in> CleanAddr ` set (NetworkPeers ptp')" by (rule imageI)
      then show ?thesis by simp
    qed
  qed
  have "SyncPeers catched ptp' = (0, ptp')"
    by (simp add: SyncPeers_def SyncPeers_loop_noop [OF sub])
  with p c n(2,3) show ?thesis by blast
qed

theorem SyncPeers_idempotent_witness:
  "SyncPeers [peer_A, peer_B, peer_A] (node\<lparr>NetworkPeers := [discovered peer_B]\<rparr>)
     = (1, node\<lparr>NetworkPeers := [discovered peer_B, discovered peer_A]\<rparr>)
   \<and> (\<exists>new. node\<lparr>NetworkPeers := [discovered peer_B, discovered peer_A]\<rparr>
              = node\<lparr>NetworkPeers := [discovered peer_B]\<rparr>
                  \<lparr>NetworkPeers := NetworkPeers (node\<lparr>NetworkPeers := [discovered peer_B]\<rparr>) @
                     map (\<lambda>a. NetworkPeer_zero\<lparr>CleanAddr := a, Unknown := True\<rparr>) new\<rparr>
           \<and> distinct new
           \<and> set new = set [peer_A, peer_B, peer_A]
                         - CleanAddr ` set (NetworkPeers (node\<lparr>NetworkPeers := [discovered peer_B]\<rparr>))
           \<and> (1::int) = int (length new)
           \<and> SyncPeers [peer_A, peer_B, peer_A]
                (node\<lparr>NetworkPeers := [discovered peer_B, discovered peer_A]\<rparr>)
               = (0, node\<lparr>NetworkPeers := [discovered peer_B, discovered peer_A]\<rparr>))"
proof -
  have h: "SyncPeers [peer_A, peer_B, peer_A] (node\<lparr>NetworkPeers := [discovered peer_B]\<rparr>)
             = (1, node\<lparr>NetworkPeers := [discovered peer_B, discovered peer_A]\<rparr>)"
    by (simp add: SyncPeers_def discovered_def peer_A_def peer_B_def)
  from SyncPeers_idempotent [OF h] h show ?thesis by blast
qed

section \<open>PurgePeers\<close>

text \<open>
  C1. The claim is that \<open>PurgePeers\<close> keeps exactly the peers whose endpoint is in the
  snapshot. On the table of the two peers A and B and the snapshot holding A alone, the
  index collected for removal is 1 (that of B), but the deleting loop runs over the
  positions of the collected indices, here 0: A, which is in the snapshot, is removed,
  and B, which is not, stays.
\<close>

theorem PurgePeers_removes_wrong_peer:
  "PurgePeers [peer_A] (node\<lparr>NetworkPeers := [discovered peer_A, discovered peer_B]\<rparr>)
     = Inr (node\<lparr>NetworkPeers := [discovered peer_B]\<rparr>)"
  by (simp add: PurgePeers_def delete_at_def discovered_def peer_A_def peer_B_def)

text \<open>
  With the empty snapshot both indices are collected; the second deletion, at position
  1 of a table of length 1, is out of range and the process panics.
\<close>

lemma PurgePeers_panics:
  "PurgePeers [] (node\<lparr>NetworkPeers := [discovered peer_A, discovered peer_B]\<rparr>)
     = Inl Panic_slice_bounds"
  by (simp add: PurgePeers_def delete_at_def discovered_def upt_rec)

section \<open>What the loops compute\<close>

lemma AddPeer_loop_char:
  "AddPeer_loop addr ip mac peers found =
     (found \<or> UDPAddr_String addr \<in> CleanAddr ` set peers, map (handshake addr ip mac) peers)"
  by (induction peers arbitrary: found) (auto simp: handshake_def)

lemma AddPeer_char:
  "NetworkPeers (AddPeer addr ip mac ptp) =
     map (handshake addr ip mac) (NetworkPeers ptp) @
     (if UDPAddr_String addr \<in> CleanAddr ` set (NetworkPeers ptp) then []
      else [NetworkPeer_zero\<lparr>CleanAddr := UDPAddr_String addr, PeerAddr := Some addr,
                              PeerLocalIP := ip, PeerHW := mac,
                              Unknown := False, Handshaked := True\<rparr>])"
  by (simp add: AddPeer_def AddPeer_loop_char)

lemma IntroducePeers_loop_char:
  "NetworkPeers ptp = pre @ rest \<Longrightarrow> i = length pre \<Longrightarrow>
   IntroducePeers_loop env i rest ptp =
     ptp\<lparr>NetworkPeers := pre @ map (introduce env) rest,
         UDPSocket := (UDPSocket ptp)\<lparr>sent := sent (UDPSocket ptp) @
            concat (map (introductions env (PrepareIntroductionMessage (IP ptp) (Mac ptp))) rest)\<rparr>\<rparr>"
proof (induction rest arbitrary: pre ptp i)
  case Nil
  then show ?case by simp
next
  case (Cons peer rest)
  show ?case
  proof (cases "Unknown peer")
    case False
    have "NetworkPeers ptp = (pre @ [peer]) @ rest" using Cons.prems by simp
    moreover have "introduce env peer = peer" "\<And>m. introductions env m peer = []"
      using False by (simp_all add: introduce_def introductions_def)
    ultimately show ?thesis
      using Cons.IH [of ptp "pre @ [peer]" "i + 1"] Cons.prems False by simp
  next
    case True
    show ?thesis
    proof (cases "ResolveUDPAddr env (CleanAddr peer)")
      case (Inl err)
      have "NetworkPeers ptp = (pre @ [peer]) @ rest" using Cons.prems by simp
      moreover have "introduce env peer = peer" "\<And>m. introductions env m peer = []"
        using True Inl by (simp_all add: introduce_def introductions_def)
      ultimately show ?thesis
        using Cons.IH [of ptp "pre @ [peer]" "i + 1"] Cons.prems True Inl by simp
    next
      case (Inr addr)
      let ?msg = "PrepareIntroductionMessage (IP ptp) (Mac ptp)"
      let ?ptp1 = "ptp\<lparr>NetworkPeers := pre @ peer\<lparr>PeerAddr := Some addr\<rparr> # rest\<rparr>"
      let ?ptp2 = "snd (SendMessage env ?msg (Some addr) ?ptp1)"
      have upd: "(NetworkPeers ptp)[i := (NetworkPeers ptp ! i)\<lparr>PeerAddr := Some addr\<rparr>]
                   = pre @ peer\<lparr>PeerAddr := Some addr\<rparr> # rest"
        using Cons.prems by simp
      have step: "IntroducePeers_loop env i (peer # rest) ptp
                    = IntroducePeers_loop env (i + 1) rest ?ptp2"
        using True Inr upd by (simp add: Let_def)
      have np: "NetworkPeers ?ptp2 = (pre @ [peer\<lparr>PeerAddr := Some addr\<rparr>]) @ rest"
        by (simp add: SendMessage_def)
      have len: "i + 1 = length (pre @ [peer\<lparr>PeerAddr := Some addr\<rparr>])"
        using Cons.prems by simp
      from Cons.IH [OF np len] have
        "IntroducePeers_loop env (i + 1) rest ?ptp2 =
           ?ptp2\<lparr>NetworkPeers := (pre @ [peer\<lparr>PeerAddr := Some addr\<rparr>]) @ map (introduce env) rest,
                 UDPSocket := (UDPSocket ?ptp2)\<lparr>sent := sent (UDPSocket ?ptp2) @
                    concat (map (introductions env (PrepareIntroductionMessage (IP ?ptp2) (Mac ?ptp2))) rest)\<rparr>\<rparr>" .
      moreover have "introduce env peer = peer\<lparr>PeerAddr := Some addr\<rparr>"
        "\<And>m. introductions env m peer = [(m, Some addr)]"
        using True Inr by (simp_all add: introduce_def introductions_def)
      ultimately show ?thesis
        using step by (simp add: SendMessage_def)
    qed
  qed
qed

lemma IntroducePeers_char:
  "IntroducePeers env ptp =
     ptp\<lparr>NetworkPeers := map (introduce env) (NetworkPeers ptp),
         UDPSocket := (UDPSocket ptp)\<lparr>sent := sent (UDPSocket ptp) @
            concat (map (introductions env (PrepareIntroductionMessage (IP ptp) (Mac ptp)))
                      (NetworkPeers ptp))\<rparr>\<rparr>"
  using IntroducePeers_loop_char [of ptp "[]" "NetworkPeers ptp" 0 env]
  by (simp add: IntroducePeers_def)

section \<open>The table properties are kept by every operation\<close>

lemma CleanAddr_handshake [simp]: "CleanAddr (handshake addr ip mac p) = CleanAddr p"
  by (simp add: handshake_def)

lemma CleanAddr_introduce [simp]: "CleanAddr (introduce env p) = CleanAddr p"
  by (simp add: introduce_def split: sum.splits)

lemma flags_ok_handshake: "flags_ok p \<Longrightarrow> flags_ok (handshake addr ip mac p)"
  by (simp add: handshake_def flags_ok_def)

lemma hw_ok_handshake: "hw_ok p \<Longrightarrow> hw_ok (handshake addr ip mac p)"
  by (simp add: handshake_def hw_ok_def)

lemma flags_ok_introduce: "flags_ok (introduce env p) = flags_ok p"
  by (simp add: introduce_def flags_ok_def split: sum.splits)

lemma hw_ok_introduce: "hw_ok (introduce env p) = hw_ok p"
  by (simp add: introduce_def hw_ok_def split: sum.splits)

lemma flags_ok_new: "flags_ok (NetworkPeer_zero\<lparr>CleanAddr := a, Unknown := True\<rparr>)"
  by (simp add: flags_ok_def NetworkPeer_zero_def)

lemma hw_ok_new: "hw_ok (NetworkPeer_zero\<lparr>CleanAddr := a, Unknown := True\<rparr>)"
  by (simp add: hw_ok_def NetworkPeer_zero_def)

lemma SyncPeers_flags_ok:
  assumes "list_all flags_ok (NetworkPeers ptp)"
  shows "list_all flags_ok (NetworkPeers (snd (SyncPeers catched ptp)))"
proof -
  from SyncPeers_loop_char [of catched "NetworkPeers ptp" 0] obtain new where
    "SyncPeers_loop catched (NetworkPeers ptp) 0 =
       (int (length new),
        NetworkPeers ptp @ map (\<lambda>a. NetworkPeer_zero\<lparr>CleanAddr := a, Unknown := True\<rparr>) new)"
    by auto
  then show ?thesis using assms
    by (auto simp: SyncPeers_def list_all_iff flags_ok_new)
qed

lemma SyncPeers_table_ok:
  assumes "table_ok (NetworkPeers ptp)"
  shows "table_ok (NetworkPeers (snd (SyncPeers catched ptp)))"
proof -
  let ?mk = "\<lambda>a. NetworkPeer_zero\<lparr>CleanAddr := a, Unknown := True\<rparr>"
  from SyncPeers_loop_char [of catched "NetworkPeers ptp" 0] obtain new where
    n: "SyncPeers_loop catched (NetworkPeers ptp) 0 =
       (int (length new), NetworkPeers ptp @ map ?mk new)"
       "distinct new" "set new = set catched - CleanAddr ` set (NetworkPeers ptp)"
    by auto
  have m: "map CleanAddr (map ?mk new) = new"
    by (induction new) simp_all
  have "distinct (map CleanAddr (NetworkPeers ptp) @ new)"
    using assms n(2,3) by (auto simp: table_ok_def)
  then show ?thesis using assms n(1) m
    by (auto simp: SyncPeers_def table_ok_def list_all_iff flags_ok_new hw_ok_new)
qed

lemma flags_ok_added:
  "flags_ok (NetworkPeer_zero\<lparr>CleanAddr := a, PeerAddr := b, PeerLocalIP := ip, PeerHW := mac,
                              Unknown := False, Handshaked := True\<rparr>)"
  by (simp add: flags_ok_def)

lemma hw_ok_added:
  "hw_ok (NetworkPeer_zero\<lparr>CleanAddr := a, PeerAddr := b, PeerLocalIP := ip, PeerHW := mac,
                              Unknown := False, Handshaked := True\<rparr>)"
  by (simp add: hw_ok_def)

lemma AddPeer_flags_ok:
  "list_all flags_ok (NetworkPeers ptp) \<Longrightarrow> list_all flags_ok (NetworkPeers (AddPeer addr ip mac ptp))"
  by (auto simp: AddPeer_char list_all_iff flags_ok_handshake flags_ok_added)

lemma AddPeer_table_ok:
  assumes "table_ok (NetworkPeers ptp)"
  shows "table_ok (NetworkPeers (AddPeer addr ip mac ptp))"
proof -
  have m: "map (CleanAddr \<circ> handshake addr ip mac) (NetworkPeers ptp) = map CleanAddr (NetworkPeers ptp)"
    by simp
  show ?thesis using assms
    by (auto simp: AddPeer_char table_ok_def list_all_iff flags_ok_handshake hw_ok_handshake m
                   flags_ok_added hw_ok_added)
qed

lemma IntroducePeers_flags_ok:
  "list_all flags_ok (NetworkPeers ptp) \<Longrightarrow> list_all flags_ok (NetworkPeers (IntroducePeers env ptp))"
  by (simp add: IntroducePeers_char list_all_iff flags_ok_introduce)

lemma IntroducePeers_table_ok:
  assumes "table_ok (NetworkPeers ptp)"
  shows "table_ok (NetworkPeers (IntroducePeers env ptp))"
proof -
  have m: "map (CleanAddr \<circ> introduce env) (NetworkPeers ptp) = map CleanAddr (NetworkPeers ptp)"
    by simp
  show ?thesis using assms
    by (simp add: IntroducePeers_char table_ok_def list_all_iff flags_ok_introduce hw_ok_introduce m)
qed

lemma delete_at_Inr:
  "delete_at i s = Inr s' \<Longrightarrow> s' = take i s @ drop (Suc i) s"
  by (simp add: delete_at_def split: if_splits)

lemma list_all_cut: "list_all P s \<Longrightarrow> list_all P (take i s @ drop j s)"
  by (auto simp: list_all_iff dest: in_set_takeD in_set_dropD)

lemma distinct_cut:
  assumes "distinct (map f s)"
  shows "distinct (map f (take i s @ drop (Suc i) s))"
proof -
  have "set (take i (map f s)) \<inter> set (drop (Suc i) (map f s)) = {}"
    using assms by (intro set_take_disj_set_drop_if_distinct) simp_all
  moreover have "distinct (take i (map f s))" "distinct (drop (Suc i) (map f s))"
    using assms by simp_all
  ultimately show ?thesis
    by (simp add: take_map drop_map)
qed

lemma table_ok_cut: "table_ok s \<Longrightarrow> table_ok (take i s @ drop (Suc i) s)"
  unfolding table_ok_def by (intro conjI list_all_cut distinct_cut) simp_all

lemma PurgePeers_delete_flags_ok:
  "PurgePeers_delete is peers = Inr peers' \<Longrightarrow> list_all flags_ok peers \<Longrightarrow> list_all flags_ok peers'"
proof (induction "is" arbitrary: peers)
  case Nil then show ?case by simp
next
  case (Cons i rest)
  then show ?case
    by (auto split: sum.splits dest!: delete_at_Inr intro: list_all_cut)
qed

lemma PurgePeers_delete_table_ok:
  "PurgePeers_delete is peers = Inr peers' \<Longrightarrow> table_ok peers \<Longrightarrow> table_ok peers'"
proof (induction "is" arbitrary: peers)
  case Nil then show ?case by simp
next
  case (Cons i rest)
  then show ?case
    by (auto split: sum.splits dest!: delete_at_Inr intro: table_ok_cut)
qed

lemma PurgePeers_flags_ok:
  "PurgePeers catched ptp = Inr ptp' \<Longrightarrow> list_all flags_ok (NetworkPeers ptp) \<Longrightarrow>
   list_all flags_ok (NetworkPeers ptp')"
  by (auto simp: PurgePeers_def Let_def split: sum.splits dest: PurgePeers_delete_flags_ok)

lemma PurgePeers_table_ok:
  "PurgePeers catched ptp = Inr ptp' \<Longrightarrow> table_ok (NetworkPeers ptp) \<Longrightarrow>
   table_ok (NetworkPeers ptp')"
  by (auto simp: PurgePeers_def Let_def split: sum.splits dest: PurgePeers_delete_table_ok)

lemma SendTo_loop_peers:
  "NetworkPeers (snd (SendTo_loop env dst msg peers ptp)) = NetworkPeers ptp"
  by (induction peers) (simp_all add: SendMessage_def)

lemma SendTo_peers: "NetworkPeers (snd (SendTo env dst msg ptp)) = NetworkPeers ptp"
  by (simp add: SendTo_def SendTo_loop_peers)

lemma WriteToDevice_peers: "NetworkPeers (WriteToDevice b ptp) = NetworkPeers ptp"
  by (simp add: WriteToDevice_def split: option.splits)

lemma HandleP2PMessage_peers:
  "NetworkPeers (HandleP2PMessage env count src_addr err rcv_bytes ptp) = NetworkPeers ptp
   \<or> (\<exists>ip mac. NetworkPeers (HandleP2PMessage env count src_addr err rcv_bytes ptp)
                  = NetworkPeers (AddPeer src_addr ip mac ptp))"
  by (auto simp: HandleP2PMessage_def Let_def SendMessage_def WriteToDevice_peers
           split: sum.splits MSG_TYPE.splits prod.splits)

lemma apply_op_flags_ok:
  "apply_op op ptp = Inr ptp' \<Longrightarrow> list_all flags_ok (NetworkPeers ptp) \<Longrightarrow>
   list_all flags_ok (NetworkPeers ptp')"
proof (cases op)
  case (Op_HandleP2PMessage env count src_addr err rcv_bytes)
  assume a: "apply_op op ptp = Inr ptp'" "list_all flags_ok (NetworkPeers ptp)"
  from HandleP2PMessage_peers [of env count src_addr err rcv_bytes ptp] a Op_HandleP2PMessage
  show ?thesis by (auto simp: AddPeer_flags_ok)
qed (auto simp: SyncPeers_flags_ok AddPeer_flags_ok IntroducePeers_flags_ok SendTo_peers
                WriteToDevice_peers dest: PurgePeers_flags_ok)

lemma apply_op_table_ok:
  "apply_op op ptp = Inr ptp' \<Longrightarrow> table_ok (NetworkPeers ptp) \<Longrightarrow> table_ok (NetworkPeers ptp')"
proof (cases op)
  case (Op_HandleP2PMessage env count src_addr err rcv_bytes)
  assume a: "apply_op op ptp = Inr ptp'" "table_ok (NetworkPeers ptp)"
  from HandleP2PMessage_peers [of env count src_addr err rcv_bytes ptp] a Op_HandleP2PMessage
  show ?thesis by (auto simp: AddPeer_table_ok)
qed (auto simp: SyncPeers_table_ok AddPeer_table_ok IntroducePeers_table_ok SendTo_peers
                WriteToDevice_peers dest: PurgePeers_table_ok)

lemma run_ops_flags_ok:
  "run_ops ops ptp = Inr ptp' \<Longrightarrow> list_all flags_ok (NetworkPeers ptp) \<Longrightarrow>
   list_all flags_ok (NetworkPeers ptp')"
proof (induction ops arbitrary: ptp)
  case Nil then show ?case by simp
next
  case (Cons op ops)
  then show ?case
    by (cases "apply_op op ptp") (auto dest: apply_op_flags_ok)
qed

lemma run_ops_table_ok:
  "run_ops ops ptp = Inr ptp' \<Longrightarrow> table_ok (NetworkPeers ptp) \<Longrightarrow> table_ok (NetworkPeers ptp')"
proof (induction ops arbitrary: ptp)
  case Nil then show ?case by simp
next
  case (Cons op ops)
  then show ?case
    by (cases "apply_op op ptp") (auto dest: apply_op_table_ok)
qed

section \<open>The two flags\<close>

text \<open>
  C10. \<open>SyncPeers\<close>, \<open>AddPeer\<close>, \<open>IntroducePeers\<close> and \<open>PurgePeers\<close> (when it does not
  panic) each keep the property that every peer of the table has \<open>Unknown\<close> equal to
  the negation of \<open>Handshaked\<close>; hence every table that a sequence of engine operations
  builds from the empty table has it: no peer has both flags true or both false.
\<close>

theorem flags_complementary_invariant:
  "(list_all flags_ok (NetworkPeers ptp) \<longrightarrow>
        list_all flags_ok (NetworkPeers (snd (SyncPeers catched ptp)))
      \<and> list_all flags_ok (NetworkPeers (AddPeer addr ip mac ptp))
      \<and> list_all flags_ok (NetworkPeers (IntroducePeers env ptp))
      \<and> (case PurgePeers catched ptp of
            Inl e \<Rightarrow> True
          | Inr ptp' \<Rightarrow> list_all flags_ok (NetworkPeers ptp')))
   \<and> (NetworkPeers ptp0 = [] \<and> run_ops ops ptp0 = Inr ptp1 \<longrightarrow>
        list_all flags_ok (NetworkPeers ptp1))"
proof (intro conjI impI)
  assume "list_all flags_ok (NetworkPeers ptp)"
  then show "case PurgePeers catched ptp of
               Inl e \<Rightarrow> True
             | Inr ptp' \<Rightarrow> list_all flags_ok (NetworkPeers ptp')"
    by (cases "PurgePeers catched ptp") (auto dest: PurgePeers_flags_ok)
next
  assume "NetworkPeers ptp0 = [] \<and> run_ops ops ptp0 = Inr ptp1"
  then show "list_all flags_ok (NetworkPeers ptp1)"
    using run_ops_flags_ok [of ops ptp0 ptp1] by simp
qed (simp_all add: SyncPeers_flags_ok AddPeer_flags_ok IntroducePeers_flags_ok)

theorem flags_complementary_invariant_witness:
  "list_all flags_ok (NetworkPeers (node\<lparr>NetworkPeers := [discovered peer_A, discovered peer_B]\<rparr>))
   \<and> list_all flags_ok (NetworkPeers (snd (SyncPeers [peer_A]
         (node\<lparr>NetworkPeers := [discovered peer_A, discovered peer_B]\<rparr>))))
   \<and> list_all flags_ok (NetworkPeers (AddPeer (UDPAddr peer_A) ip_X mac_X
         (node\<lparr>NetworkPeers := [discovered peer_A, discovered peer_B]\<rparr>)))
   \<and> list_all flags_ok (NetworkPeers (IntroducePeers lab_env
         (node\<lparr>NetworkPeers := [discovered peer_A, discovered peer_B]\<rparr>)))
   \<and> PurgePeers [peer_A] (node\<lparr>NetworkPeers := [discovered peer_A, discovered peer_B]\<rparr>)
        = Inr (node\<lparr>NetworkPeers := [discovered peer_B]\<rparr>)
   \<and> list_all flags_ok (NetworkPeers (node\<lparr>NetworkPeers := [discovered peer_B]\<rparr>))
   \<and> NetworkPeers node = []
   \<and> run_ops [Op_SyncPeers [peer_A, peer_B], Op_AddPeer (UDPAddr peer_A) ip_X mac_X] node
        = Inr (AddPeer (UDPAddr peer_A) ip_X mac_X (snd (SyncPeers [peer_A, peer_B] node)))
   \<and> list_all flags_ok
        (NetworkPeers (AddPeer (UDPAddr peer_A) ip_X mac_X (snd (SyncPeers [peer_A, peer_B] node))))"
proof -
  let ?t = "node\<lparr>NetworkPeers := [discovered peer_A, discovered peer_B]\<rparr>"
  have h1: "list_all flags_ok (NetworkPeers ?t)"
    by (simp add: discovered_def flags_ok_def NetworkPeer_zero_def)
  have h2: "PurgePeers [peer_A] ?t = Inr (node\<lparr>NetworkPeers := [discovered peer_B]\<rparr>)"
    by (simp add: PurgePeers_def delete_at_def discovered_def peer_A_def peer_B_def)
  have h3: "NetworkPeers node = []"
    by (simp add: node_def PTPCloud_zero_def)
  have h4: "run_ops [Op_SyncPeers [peer_A, peer_B], Op_AddPeer (UDPAddr peer_A) ip_X mac_X] node
        = Inr (AddPeer (UDPAddr peer_A) ip_X mac_X (snd (SyncPeers [peer_A, peer_B] node)))"
    by simp
  from flags_complementary_invariant
         [of ?t "[peer_A]" "UDPAddr peer_A" ip_X mac_X lab_env node
             "[Op_SyncPeers [peer_A, peer_B], Op_AddPeer (UDPAddr peer_A) ip_X mac_X]"
             "AddPeer (UDPAddr peer_A) ip_X mac_X (snd (SyncPeers [peer_A, peer_B] node))"]
    h1 h2 h3 h4
  show ?thesis by simp
qed

section \<open>IsPeerUnknown\<close>

lemma IsPeerUnknown_loop_table_ok:
  "table_ok peers \<Longrightarrow>
   IsPeerUnknown_loop a peers =
     (\<forall>p\<in>set peers. CleanAddr p = UDPAddr_String a \<longrightarrow> \<not> Handshaked p)"
proof (induction peers)
  case Nil
  then show ?case by simp
next
  case (Cons peer rest)
  then have rest: "table_ok rest" by (simp add: table_ok_def)
  show ?case
  proof (cases "CleanAddr peer = UDPAddr_String a")
    case True
    have "UDPAddr_String a \<notin> CleanAddr ` set rest"
      using Cons.prems True by (simp add: table_ok_def)
    then have "\<forall>p\<in>set rest. CleanAddr p \<noteq> UDPAddr_String a" by force
    moreover have "Unknown peer = (\<not> Handshaked peer)"
      using Cons.prems by (simp add: table_ok_def flags_ok_def)
    ultimately show ?thesis using True by auto
  next
    case False
    then show ?thesis using Cons.IH [OF rest] by simp
  qed
qed

lemma table_ok_Nil: "table_ok []"
  by (simp add: table_ok_def)

text \<open>
  C7. On every table that the engine's operations build from the empty table,
  \<open>IsPeerUnknown a\<close> is true if and only if no peer has the endpoint \<open>a.String()\<close> or
  a peer has it and has not handshaked; it is false exactly when a peer with that
  endpoint has handshaked.
\<close>

theorem IsPeerUnknown_iff:
  assumes "NetworkPeers ptp0 = []" and "run_ops ops ptp0 = Inr ptp"
  shows "(IsPeerUnknown a ptp \<longleftrightarrow>
            \<not> (\<exists>p\<in>set (NetworkPeers ptp). CleanAddr p = UDPAddr_String a)
            \<or> (\<exists>p\<in>set (NetworkPeers ptp). CleanAddr p = UDPAddr_String a \<and> \<not> Handshaked p))
       \<and> (\<not> IsPeerUnknown a ptp \<longleftrightarrow>
            (\<exists>p\<in>set (NetworkPeers ptp). CleanAddr p = UDPAddr_String a \<and> Handshaked p))"
proof -
  have ok: "table_ok (NetworkPeers ptp)"
    using run_ops_table_ok [OF assms(2)] assms(1) by (simp add: table_ok_Nil)
  have u: "IsPeerUnknown a ptp =
     (\<forall>p\<in>set (NetworkPeers ptp). CleanAddr p = UDPAddr_String a \<longrightarrow> \<not> Handshaked p)"
    by (simp add: IsPeerUnknown_def IsPeerUnknown_loop_table_ok [OF ok])
  have d: "distinct (map CleanAddr (NetworkPeers ptp))"
    using ok by (simp add: table_ok_def)
  have uniq: "p = q" if "p \<in> set (NetworkPeers ptp)" "q \<in> set (NetworkPeers ptp)"
    "CleanAddr p = CleanAddr q" for p q
    using d that by (meson distinct_map inj_onD)
  have 1: "IsPeerUnknown a ptp \<longleftrightarrow>
            \<not> (\<exists>p\<in>set (NetworkPeers ptp). CleanAddr p = UDPAddr_String a)
            \<or> (\<exists>p\<in>set (NetworkPeers ptp). CleanAddr p = UDPAddr_String a \<and> \<not> Handshaked p)"
    unfolding u using uniq by metis
  have 2: "\<not> IsPeerUnknown a ptp \<longleftrightarrow>
            (\<exists>p\<in>set (NetworkPeers ptp). CleanAddr p = UDPAddr_String a \<and> Handshaked p)"
    unfolding u by blast
  from 1 2 show ?thesis by (rule conjI)
qed

theorem IsPeerUnknown_iff_witness:
  "NetworkPeers node = []
   \<and> run_ops [Op_SyncPeers [peer_A, peer_B], Op_AddPeer (UDPAddr peer_A) ip_X mac_X] node
        = Inr (AddPeer (UDPAddr peer_A) ip_X mac_X (snd (SyncPeers [peer_A, peer_B] node)))
   \<and> IsPeerUnknown (UDPAddr peer_B)
        (AddPeer (UDPAddr peer_A) ip_X mac_X (snd (SyncPeers [peer_A, peer_B] node)))
   \<and> (\<exists>p\<in>set (NetworkPeers
                  (AddPeer (UDPAddr peer_A) ip_X mac_X (snd (SyncPeers [peer_A, peer_B] node)))).
          CleanAddr p = UDPAddr_String (UDPAddr peer_B) \<and> \<not> Handshaked p)
   \<and> \<not> IsPeerUnknown (UDPAddr peer_A)
        (AddPeer (UDPAddr peer_A) ip_X mac_X (snd (SyncPeers [peer_A, peer_B] node)))
   \<and> (\<exists>p\<in>set (NetworkPeers
                  (AddPeer (UDPAddr peer_A) ip_X mac_X (snd (SyncPeers [peer_A, peer_B] node)))).
          CleanAddr p = UDPAddr_String (UDPAddr peer_A) \<and> Handshaked p)"
proof -
  let ?T = "AddPeer (UDPAddr peer_A) ip_X mac_X (snd (SyncPeers [peer_A, peer_B] node))"
  have h1: "NetworkPeers node = []"
    by (simp add: node_def PTPCloud_zero_def)
  have h2: "run_ops [Op_SyncPeers [peer_A, peer_B], Op_AddPeer (UDPAddr peer_A) ip_X mac_X] node
              = Inr ?T"
    by simp
  have a: "\<not> IsPeerUnknown (UDPAddr peer_A) ?T"
    by (simp add: IsPeerUnknown_def AddPeer_def SyncPeers_def node_def PTPCloud_zero_def
                  peer_A_def peer_B_def)
  have b: "IsPeerUnknown (UDPAddr peer_B) ?T"
    by (simp add: IsPeerUnknown_def AddPeer_def SyncPeers_def node_def PTPCloud_zero_def
                  peer_A_def peer_B_def)
  from IsPeerUnknown_iff [OF h1 h2, of "UDPAddr peer_A"] a
  have c: "\<exists>p\<in>set (NetworkPeers ?T). CleanAddr p = UDPAddr_String (UDPAddr peer_A) \<and> Handshaked p"
    by blast
  have d: "\<exists>p\<in>set (NetworkPeers ?T). CleanAddr p = UDPAddr_String (UDPAddr peer_B) \<and> \<not> Handshaked p"
    by (simp add: AddPeer_def SyncPeers_def node_def PTPCloud_zero_def peer_A_def peer_B_def
                  NetworkPeer_zero_def)
  from h1 h2 a b c d show ?thesis by blast
qed

section \<open>AddPeer\<close>

text \<open>
  C3, as stated, fails. From the empty table, \<open>AddPeer\<close> for endpoint A with the hardware
  address X and then \<open>AddPeer\<close> for the different endpoint B with the same X: the second
  call changes the table, and the table then holds two handshaked peers with the
  hardware address X.
\<close>

theorem AddPeer_duplicate_mac_counterexample:
  "AddPeer (UDPAddr peer_B) ip_X mac_X (AddPeer (UDPAddr peer_A) ip_X mac_X node)
     \<noteq> AddPeer (UDPAddr peer_A) ip_X mac_X node
   \<and> run_ops [Op_AddPeer (UDPAddr peer_A) ip_X mac_X, Op_AddPeer (UDPAddr peer_B) ip_X mac_X] node
       = Inr (AddPeer (UDPAddr peer_B) ip_X mac_X (AddPeer (UDPAddr peer_A) ip_X mac_X node))
   \<and> map (\<lambda>p. (CleanAddr p, Handshaked p, PeerHW p))
         (NetworkPeers (AddPeer (UDPAddr peer_B) ip_X mac_X
                          (AddPeer (UDPAddr peer_A) ip_X mac_X node)))
       = [(peer_A, True, mac_X), (peer_B, True, mac_X)]"
  by (simp add: AddPeer_def node_def PTPCloud_zero_def peer_A_def peer_B_def)

text \<open>
  C3, amended. \<open>AddPeer\<close> never fails and never looks at the hardware addresses in the
  table: after it, a peer with the endpoint \<open>addr.String()\<close> is in the table with the
  given address, IP and hardware address, \<open>Unknown\<close> false and \<open>Handshaked\<close> true;
  every peer with that endpoint has these five fields so; the
  peers with other endpoints are as before (also those that already have this hardware
  address); and the endpoints of the table are the old ones, followed by the new one if
  it was absent.
\<close>

theorem AddPeer_always_handshakes:
  "(\<exists>p\<in>set (NetworkPeers (AddPeer addr ip mac ptp)).
       CleanAddr p = UDPAddr_String addr \<and> PeerAddr p = Some addr \<and> PeerLocalIP p = ip
       \<and> PeerHW p = mac \<and> \<not> Unknown p \<and> Handshaked p)
   \<and> (\<forall>p\<in>set (NetworkPeers (AddPeer addr ip mac ptp)).
         CleanAddr p = UDPAddr_String addr \<longrightarrow>
         PeerAddr p = Some addr \<and> PeerLocalIP p = ip \<and> PeerHW p = mac
         \<and> \<not> Unknown p \<and> Handshaked p)
   \<and> filter (\<lambda>p. CleanAddr p \<noteq> UDPAddr_String addr) (NetworkPeers (AddPeer addr ip mac ptp))
       = filter (\<lambda>p. CleanAddr p \<noteq> UDPAddr_String addr) (NetworkPeers ptp)
   \<and> map CleanAddr (NetworkPeers (AddPeer addr ip mac ptp))
       = map CleanAddr (NetworkPeers ptp) @
           (if UDPAddr_String addr \<in> CleanAddr ` set (NetworkPeers ptp) then []
            else [UDPAddr_String addr])"
proof -
  let ?s = "UDPAddr_String addr"
  let ?new = "NetworkPeer_zero\<lparr>CleanAddr := ?s, PeerAddr := Some addr,
                              PeerLocalIP := ip, PeerHW := mac,
                              Unknown := False, Handshaked := True\<rparr>"
  have hs: "CleanAddr p = ?s \<Longrightarrow>
              PeerAddr (handshake addr ip mac p) = Some addr \<and>
              PeerLocalIP (handshake addr ip mac p) = ip \<and>
              PeerHW (handshake addr ip mac p) = mac \<and>
              \<not> Unknown (handshake addr ip mac p) \<and> Handshaked (handshake addr ip mac p)" for p
    by (simp add: handshake_def)
  have 1: "\<exists>p\<in>set (NetworkPeers (AddPeer addr ip mac ptp)).
       CleanAddr p = ?s \<and> PeerAddr p = Some addr \<and> PeerLocalIP p = ip
       \<and> PeerHW p = mac \<and> \<not> Unknown p \<and> Handshaked p"
  proof (cases "?s \<in> CleanAddr ` set (NetworkPeers ptp)")
    case True
    then obtain q where q: "q \<in> set (NetworkPeers ptp)" "CleanAddr q = ?s" by auto
    then have "handshake addr ip mac q \<in> set (NetworkPeers (AddPeer addr ip mac ptp))"
      by (simp add: AddPeer_char)
    with hs [OF q(2)] q(2) show ?thesis
      by (intro bexI [of _ "handshake addr ip mac q"]) simp_all
  next
    case False
    then have "?new \<in> set (NetworkPeers (AddPeer addr ip mac ptp))"
      by (simp add: AddPeer_char)
    then show ?thesis
      by (intro bexI [of _ ?new]) simp_all
  qed
  have 2: "\<forall>p\<in>set (NetworkPeers (AddPeer addr ip mac ptp)).
         CleanAddr p = ?s \<longrightarrow>
         PeerAddr p = Some addr \<and> PeerLocalIP p = ip \<and> PeerHW p = mac
         \<and> \<not> Unknown p \<and> Handshaked p"
    using hs by (auto simp: AddPeer_char)
  have f: "filter (\<lambda>p. CleanAddr p \<noteq> ?s) (map (handshake addr ip mac) peers)
             = filter (\<lambda>p. CleanAddr p \<noteq> ?s) peers" for peers
    by (induction peers) (simp_all add: handshake_def)
  have 3: "filter (\<lambda>p. CleanAddr p \<noteq> ?s) (NetworkPeers (AddPeer addr ip mac ptp))
       = filter (\<lambda>p. CleanAddr p \<noteq> ?s) (NetworkPeers ptp)"
    by (simp add: AddPeer_char f)
  have 4: "map CleanAddr (NetworkPeers (AddPeer addr ip mac ptp))
       = map CleanAddr (NetworkPeers ptp) @
           (if ?s \<in> CleanAddr ` set (NetworkPeers ptp) then [] else [?s])"
    by (simp add: AddPeer_char)
  from 1 2 3 4 show ?thesis by blast
qed

theorem AddPeer_always_handshakes_witness:
  "PeerHW (handshake (UDPAddr peer_A) ip_X mac_X (discovered peer_A)) = mac_X
   \<and> (\<exists>p\<in>set (NetworkPeers (AddPeer (UDPAddr peer_B) ip_X mac_X
                  (node\<lparr>NetworkPeers := [handshake (UDPAddr peer_A) ip_X mac_X (discovered peer_A)]\<rparr>))).
         CleanAddr p = UDPAddr_String (UDPAddr peer_B) \<and> PeerAddr p = Some (UDPAddr peer_B)
         \<and> PeerLocalIP p = ip_X \<and> PeerHW p = mac_X \<and> \<not> Unknown p \<and> Handshaked p)
   \<and> filter (\<lambda>p. CleanAddr p \<noteq> UDPAddr_String (UDPAddr peer_B))
        (NetworkPeers (AddPeer (UDPAddr peer_B) ip_X mac_X
                  (node\<lparr>NetworkPeers := [handshake (UDPAddr peer_A) ip_X mac_X (discovered peer_A)]\<rparr>)))
       = [handshake (UDPAddr peer_A) ip_X mac_X (discovered peer_A)]"
proof -
  let ?t = "node\<lparr>NetworkPeers := [handshake (UDPAddr peer_A) ip_X mac_X (discovered peer_A)]\<rparr>"
  have a: "PeerHW (handshake (UDPAddr peer_A) ip_X mac_X (discovered peer_A)) = mac_X"
    by (simp add: handshake_def discovered_def)
  have b: "filter (\<lambda>p. CleanAddr p \<noteq> UDPAddr_String (UDPAddr peer_B)) (NetworkPeers ?t)
             = [handshake (UDPAddr peer_A) ip_X mac_X (discovered peer_A)]"
    by (simp add: discovered_def peer_A_def peer_B_def)
  from AddPeer_always_handshakes [of "UDPAddr peer_B" ip_X mac_X ?t] a b
  show ?thesis by simp
qed

section \<open>Hexadecimal formatting and parsing\<close>

lemma hex_value_hexDigit_all: "\<forall>n\<in>set [0..<16]. hex_value (hexDigit n) = Some n"
  by code_simp

lemma hex_value_hexDigit: "n < 16 \<Longrightarrow> hex_value (hexDigit n) = Some n"
  using hex_value_hexDigit_all by simp

lemma hi_nibble: "unat (drop_bit 4 (b :: byte)) = unat b div 16"
  by (simp add: unat_drop_bit_eq drop_bit_eq_div unat_div)

lemma lo_nibble: "unat ((b :: byte) AND 0xF) = unat b mod 16"
proof -
  have "(b AND 0xF) = take_bit 4 b"
    using take_bit_eq_mask [of 4 b] by (simp add: mask_eq_exp_minus_1)
  then have "unat (b AND 0xF) = take_bit 4 (unat b)"
    by (simp only: unsigned_take_bit_eq)
  then show ?thesis by (simp add: take_bit_eq_mod)
qed

lemma nibbles_nat: "unat (drop_bit 4 (b :: byte)) * 16 + unat (b AND 0xF) = unat b"
  unfolding hi_nibble lo_nibble by simp

lemma hi_nibble_less: "unat (drop_bit 4 (b :: byte)) < 16"
proof -
  have "unat b < 2 ^ LENGTH(8)" by (rule unsigned_less)
  then show ?thesis unfolding hi_nibble by simp
qed

lemma lo_nibble_less: "unat ((b :: byte) AND 0xF) < 16"
  unfolding lo_nibble by simp

lemma length_fmt_02x [simp]: "length (fmt_02x b) = 2"
  by (simp add: fmt_02x_def)

lemma xtoi_fmt_02x: "xtoi (fmt_02x b) = (unat b, 2, True)"
proof -
  let ?h = "unat (drop_bit 4 b)" and ?l = "unat (b AND 0xF)"
  have b: "unat b < 2 ^ LENGTH(8)" by (rule unsigned_less)
  have "xtoi [hexDigit ?h, hexDigit ?l] = (?h * 16 + ?l, 2, True)"
    using hi_nibble_less [of b] lo_nibble_less [of b]
    by (simp add: xtoi_def hex_value_hexDigit Let_def)
  then show ?thesis
    by (simp only: fmt_02x_def nibbles_nat)
qed

lemma xtoi2_fmt_02x:
  "rest = [] \<or> hd rest = e \<Longrightarrow> xtoi2 (fmt_02x b @ rest) e = (b, True)"
  by (cases rest) (auto simp: xtoi2_def xtoi_fmt_02x nth_append)

lemma fmt_02x_inj: "fmt_02x a = fmt_02x b \<Longrightarrow> a = b"
proof -
  assume "fmt_02x a = fmt_02x b"
  then have "xtoi (fmt_02x a) = xtoi (fmt_02x b)" by simp
  then show "a = b" by (simp add: xtoi_fmt_02x word_unat_eq_iff)
qed

lemma HardwareAddr_String_loop_pos:
  "i > 0 \<Longrightarrow> HardwareAddr_String_loop i bs buf = buf @ concat (map (\<lambda>b. CHR '':'' # fmt_02x b) bs)"
  by (induction bs arbitrary: i buf) (simp_all add: fmt_02x_def)

lemma HardwareAddr_String_Cons:
  "HardwareAddr_String (b # bs) = fmt_02x b @ concat (map (\<lambda>b. CHR '':'' # fmt_02x b) bs)"
  by (simp add: HardwareAddr_String_def HardwareAddr_String_loop_pos) (simp add: fmt_02x_def)

lemma HardwareAddr_String_Nil: "HardwareAddr_String [] = []"
  by (simp add: HardwareAddr_String_def)

lemma concat_groups_inj:
  "concat (map (\<lambda>b. CHR '':'' # fmt_02x b) xs) = concat (map (\<lambda>b. CHR '':'' # fmt_02x b) ys)
   \<Longrightarrow> xs = ys"
proof (induction xs arbitrary: ys)
  case Nil
  then show ?case by (cases ys) simp_all
next
  case (Cons x xs)
  then obtain y ys' where ys: "ys = y # ys'" by (cases ys) auto
  from Cons.prems ys have
    "fmt_02x x @ concat (map (\<lambda>b. CHR '':'' # fmt_02x b) xs)
       = fmt_02x y @ concat (map (\<lambda>b. CHR '':'' # fmt_02x b) ys')" by simp
  then have "fmt_02x x = fmt_02x y"
    and "concat (map (\<lambda>b. CHR '':'' # fmt_02x b) xs) = concat (map (\<lambda>b. CHR '':'' # fmt_02x b) ys')"
    by simp_all
  with Cons.IH ys show ?case by (simp add: fmt_02x_inj)
qed

lemma HardwareAddr_String_inj:
  "HardwareAddr_String a = HardwareAddr_String b \<longleftrightarrow> a = b"
proof
  assume eq: "HardwareAddr_String a = HardwareAddr_String b"
  show "a = b"
  proof (cases a)
    case Nil
    with eq show ?thesis
      by (cases b) (auto simp: HardwareAddr_String_Nil HardwareAddr_String_Cons fmt_02x_def)
  next
    case (Cons x xs)
    with eq obtain y ys where b: "b = y # ys"
      by (cases b) (auto simp: HardwareAddr_String_Nil HardwareAddr_String_Cons fmt_02x_def)
    from eq Cons b have "fmt_02x x = fmt_02x y"
      and "concat (map (\<lambda>b. CHR '':'' # fmt_02x b) xs) = concat (map (\<lambda>b. CHR '':'' # fmt_02x b) ys)"
      by (simp_all add: HardwareAddr_String_Cons)
    then show ?thesis using Cons b by (simp add: fmt_02x_inj concat_groups_inj)
  qed
qed simp

section \<open>SendTo\<close>

lemma SendTo_loop_find:
  "SendTo_loop env dst msg peers ptp =
     (case find (\<lambda>p. PeerHW p = dst) peers of
        None \<Rightarrow> ((0, None), ptp)
      | Some p \<Rightarrow> SendMessage env msg (PeerAddr p) ptp)"
  by (induction peers) (simp_all add: HardwareAddr_String_inj)

lemma find_handshaked:
  "list_all hw_ok peers \<Longrightarrow> dst \<noteq> [] \<Longrightarrow>
   find (\<lambda>p. PeerHW p = dst) peers = find (\<lambda>p. Handshaked p \<and> PeerHW p = dst) peers"
  by (induction peers) (auto simp: hw_ok_def)

text \<open>
  C6. On every table that the engine's operations build from the empty table, and for
  a destination hardware address that is not empty (a frame's is six bytes): if some
  handshaked peer has the destination as its hardware address, \<open>SendTo\<close> hands exactly
  one datagram to the socket, the message it was given (the \<^verbatim>\<open>MT_NENC\<close> message of the
  caller), addressed to the \<open>PeerAddr\<close> of the first such peer, and returns what that
  send returned; if no handshaked peer has it, the state is unchanged, so nothing is
  sent, and \<open>SendTo\<close> returns \<open>(0, nil)\<close>.
\<close>

theorem SendTo_forwards_by_mac:
  assumes "NetworkPeers ptp0 = []" and "run_ops ops ptp0 = Inr ptp" and "dst \<noteq> []"
  shows "case find (\<lambda>p. Handshaked p \<and> PeerHW p = dst) (NetworkPeers ptp) of
           None \<Rightarrow> SendTo env dst msg ptp = ((0, None), ptp)
         | Some peer \<Rightarrow>
             SendTo env dst msg ptp =
               (SendMessage_result env msg (PeerAddr peer),
                ptp\<lparr>UDPSocket := (UDPSocket ptp)
                       \<lparr>sent := sent (UDPSocket ptp) @ [(msg, PeerAddr peer)]\<rparr>\<rparr>)"
proof -
  have "table_ok (NetworkPeers ptp)"
    using run_ops_table_ok [OF assms(2)] assms(1) by (simp add: table_ok_Nil)
  then have "list_all hw_ok (NetworkPeers ptp)" by (simp add: table_ok_def)
  from find_handshaked [OF this assms(3)] show ?thesis
    by (simp add: SendTo_def SendTo_loop_find SendMessage_def split: option.splits)
qed

theorem SendTo_forwards_by_mac_witness:
  "NetworkPeers node = []
   \<and> run_ops [Op_SyncPeers [peer_A, peer_B], Op_AddPeer (UDPAddr peer_A) ip_X mac_X] node
        = Inr (AddPeer (UDPAddr peer_A) ip_X mac_X (snd (SyncPeers [peer_A, peer_B] node)))
   \<and> mac_X \<noteq> []
   \<and> sent (UDPSocket (snd (SendTo lab_env mac_X frame_msg
        (AddPeer (UDPAddr peer_A) ip_X mac_X (snd (SyncPeers [peer_A, peer_B] node))))))
        = [(frame_msg, Some (UDPAddr peer_A))]"
proof -
  let ?T = "AddPeer (UDPAddr peer_A) ip_X mac_X (snd (SyncPeers [peer_A, peer_B] node))"
  have h1: "NetworkPeers node = []"
    by (simp add: node_def PTPCloud_zero_def)
  have h2: "run_ops [Op_SyncPeers [peer_A, peer_B], Op_AddPeer (UDPAddr peer_A) ip_X mac_X] node
              = Inr ?T"
    by simp
  have h3: "mac_X \<noteq> []" by (simp add: mac_X_def)
  have f: "find (\<lambda>p. Handshaked p \<and> PeerHW p = mac_X) (NetworkPeers ?T)
             = Some (handshake (UDPAddr peer_A) ip_X mac_X (discovered peer_A))"
    by (simp add: AddPeer_def SyncPeers_def node_def PTPCloud_zero_def peer_A_def peer_B_def
                  handshake_def discovered_def mac_X_def)
  have s: "sent (UDPSocket ?T) = []"
    by (simp add: AddPeer_def SyncPeers_def node_def PTPCloud_zero_def peer_A_def peer_B_def)
  have a: "PeerAddr (handshake (UDPAddr peer_A) ip_X mac_X (discovered peer_A)) = Some (UDPAddr peer_A)"
    by (simp add: handshake_def discovered_def)
  from SendTo_forwards_by_mac [OF h1 h2 h3, of lab_env frame_msg] f s a h1 h2 h3
  show ?thesis by simp
qed

section \<open>GenerateMAC\<close>

lemma xtoi2_06:
  "xtoi2 (CHR ''0'' # CHR ''6'' # CHR '':'' # rest) (CHR '':'') = (6, True)"
  by (simp add: xtoi2_def xtoi_def hex_value_def)

lemma xtoi2_group: "xtoi2 (fmt_02x b @ CHR '':'' # rest) (CHR '':'') = (b, True)"
  by (rule xtoi2_fmt_02x) simp

lemma xtoi2_last: "xtoi2 (fmt_02x b) (CHR '':'') = (b, True)"
  using xtoi2_fmt_02x [of "[]" "CHR '':''" b] by simp

lemma ParseMAC_generated:
  "ParseMAC (''06:'' @ fmt_02x b1 @ '':'' @ fmt_02x b2 @ '':'' @ fmt_02x b3 @ '':''
               @ fmt_02x b4 @ '':'' @ fmt_02x b5)
     = Inr [6, b1, b2, b3, b4, b5]"
proof -
  have offsets: "map (\<lambda>i. 3 * i) [0..<6] = [0, 3, 6, 9, 12, 15 :: nat]"
    by (simp add: upt_rec)
  show ?thesis
    by (simp add: ParseMAC_def offsets xtoi2_06 xtoi2_group xtoi2_last)
qed

text \<open>
  C9. When \<^verbatim>\<open>rand.Read\<close> has filled the six bytes \<open>buf\<close>, \<open>GenerateMAC\<close> sets bit 1
  (the locally administered bit) of byte 0 in the buffer, which it leaves as \<open>buf\<close>
  with \<open>buf[0] OR 2\<close> in place of \<open>buf[0]\<close>, and returns the string \<^verbatim>\<open>06:\<close> followed
  by \<open>buf[1..5]\<close> as five two-digit lower-case hexadecimal octets separated by colons,
  together with the hardware address \<open>06, buf[1], ..., buf[5]\<close>; what it returns does
  not depend on \<open>buf[0]\<close>; and the string parses (\<^verbatim>\<open>net.ParseMAC\<close>) to the returned
  address, so the error branch is never taken.
\<close>

theorem GenerateMAC_format:
  assumes "length buf = 6"
  shows "GenerateMAC_run (Inr buf) =
           ((''06:'' @ fmt_02x (buf ! 1) @ '':'' @ fmt_02x (buf ! 2) @ '':'' @ fmt_02x (buf ! 3)
               @ '':'' @ fmt_02x (buf ! 4) @ '':'' @ fmt_02x (buf ! 5),
             [6, buf ! 1, buf ! 2, buf ! 3, buf ! 4, buf ! 5]),
            buf[0 := (buf ! 0) OR 2])
       \<and> bit (snd (GenerateMAC_run (Inr buf)) ! 0) 1
       \<and> GenerateMAC (Inr buf) =
           (''06:'' @ fmt_02x (buf ! 1) @ '':'' @ fmt_02x (buf ! 2) @ '':'' @ fmt_02x (buf ! 3)
              @ '':'' @ fmt_02x (buf ! 4) @ '':'' @ fmt_02x (buf ! 5),
            [6, buf ! 1, buf ! 2, buf ! 3, buf ! 4, buf ! 5])
       \<and> GenerateMAC (Inr (buf[0 := b0])) = GenerateMAC (Inr buf)
       \<and> ParseMAC (fst (GenerateMAC (Inr buf))) = Inr (snd (GenerateMAC (Inr buf)))"
proof -
  have nth: "xs[0 := x] ! i = xs ! i" if "0 < i" for i x and xs :: "byte list"
    using that by simp
  have r: "GenerateMAC_run (Inr xs) =
           ((''06:'' @ fmt_02x (xs ! 1) @ '':'' @ fmt_02x (xs ! 2) @ '':'' @ fmt_02x (xs ! 3)
               @ '':'' @ fmt_02x (xs ! 4) @ '':'' @ fmt_02x (xs ! 5),
             [6, xs ! 1, xs ! 2, xs ! 3, xs ! 4, xs ! 5]),
            xs[0 := (xs ! 0) OR 2])" for xs
    unfolding GenerateMAC_run_def Let_def
    by (simp only: nth ParseMAC_generated sum.case zero_less_numeral zero_less_one)
  have g: "GenerateMAC (Inr xs) =
           (''06:'' @ fmt_02x (xs ! 1) @ '':'' @ fmt_02x (xs ! 2) @ '':'' @ fmt_02x (xs ! 3)
              @ '':'' @ fmt_02x (xs ! 4) @ '':'' @ fmt_02x (xs ! 5),
            [6, xs ! 1, xs ! 2, xs ! 3, xs ! 4, xs ! 5])" for xs
    unfolding GenerateMAC_def r by (simp only: fst_conv)
  have "snd (GenerateMAC_run (Inr buf)) ! 0 = (buf ! 0) OR 2"
    unfolding r using assms by simp
  then have b: "bit (snd (GenerateMAC_run (Inr buf)) ! 0) 1"
    by (simp add: bit_or_iff)
  have i: "GenerateMAC (Inr (buf[0 := b0])) = GenerateMAC (Inr buf)"
    unfolding g by simp
  have p: "ParseMAC (fst (GenerateMAC (Inr buf))) = Inr (snd (GenerateMAC (Inr buf)))"
    unfolding g by (simp only: fst_conv snd_conv ParseMAC_generated)
  from r [of buf] g [of buf] b i p show ?thesis by blast
qed

theorem GenerateMAC_format_witness:
  "length [0xdc, 0xad, 0xbe, 0xef, 0x12, 0x34 :: byte] = 6
   \<and> \<not> bit (0xdc :: byte) 1
   \<and> GenerateMAC_run (Inr [0xdc, 0xad, 0xbe, 0xef, 0x12, 0x34])
       = ((''06:ad:be:ef:12:34'', [0x06, 0xad, 0xbe, 0xef, 0x12, 0x34]),
          [0xde, 0xad, 0xbe, 0xef, 0x12, 0x34])
   \<and> bit (snd (GenerateMAC_run (Inr [0xdc, 0xad, 0xbe, 0xef, 0x12, 0x34])) ! 0) 1
   \<and> GenerateMAC (Inr [0xdc, 0xad, 0xbe, 0xef, 0x12, 0x34])
       = (''06:ad:be:ef:12:34'', [0x06, 0xad, 0xbe, 0xef, 0x12, 0x34])"
proof -
  have h: "length [0xdc, 0xad, 0xbe, 0xef, 0x12, 0x34 :: byte] = 6" by simp
  have n: "\<not> bit (0xdc :: byte) 1" by simp
  have o: "(0xdc :: byte) OR 2 = 0xde" by simp
  have f: "fmt_02x 0xad = ''ad''" "fmt_02x 0xbe = ''be''" "fmt_02x 0xef = ''ef''"
          "fmt_02x 0x12 = ''12''" "fmt_02x 0x34 = ''34''"
    by code_simp+
  from GenerateMAC_format [OF h, of 0] f o n show ?thesis by simp
qed

section \<open>Malformed introductions\<close>

text \<open>
  C2. The claim is that an \<^verbatim>\<open>MT_INTRO\<close> datagram from an unknown endpoint whose payload
  does not parse leaves the peer table unchanged and is not answered. On the empty table,
  the payload \<^verbatim>\<open>hello\<close> (one part, not two) from endpoint A: \<open>ParseIntroString\<close> returns
  \<^verbatim>\<open>nil, nil\<close>, and the handler goes on to \<open>AddPeer\<close> with them: A enters the table as a
  handshaked peer without IP and hardware address, and the \<^verbatim>\<open>MT_INTRO\<close> reply is sent.
\<close>

theorem HandleP2PMessage_malformed_intro:
  "HandleP2PMessage lab_env 5 (UDPAddr peer_A) None ''hello'' node
     = node\<lparr>NetworkPeers :=
              [\<lparr>Unknown = False, Handshaked = True, CleanAddr = peer_A, ProxyID = 0,
                Forwarder = None, PeerAddr = Some (UDPAddr peer_A),
                PeerLocalIP = [], PeerHW = []\<rparr>],
            UDPSocket :=
              \<lparr>sent = [(\<lparr>Header_Type = MT_INTRO, Data = ''10.0.0.1,06:aa:aa:aa:aa:aa''\<rparr>,
                        Some (UDPAddr peer_A))]\<rparr>\<rparr>"
  by (simp add: HandleP2PMessage_def lab_env_def IsPeerUnknown_def ParseIntroString_def
                AddPeer_def SendMessage_def PrepareIntroductionMessage_def
                CreateIntroP2PMessage_def node_def PTPCloud_zero_def
                NetworkPeer_zero_def peer_A_def)

text \<open>
  The same for every payload that \<open>ParseIntroString\<close> rejects, on every state in which
  the sender is unknown.
\<close>

lemma ParseIntroString_hello: "ParseIntroString env ''hello'' = ([], [])"
  by (simp add: ParseIntroString_def)

lemma ParseIntroString_bad_mac: "ParseIntroString lab_env ''10.0.0.2,06:bb'' = ([], [])"
  by (simp add: ParseIntroString_def lab_env_def ParseMAC_def)

lemma HandleP2PMessage_unparsed:
  assumes "P2PMessageFromBytes env (take count rcv_bytes @ replicate (count - length rcv_bytes) (CHR 0x00))
             = Inr msg"
    and "Header_Type msg = MT_INTRO"
    and "IsPeerUnknown src_addr ptp"
    and "ParseIntroString env (Data msg) = ([], [])"
  shows "HandleP2PMessage env count src_addr None rcv_bytes ptp =
           snd (SendMessage env (PrepareIntroductionMessage (IP ptp) (Mac ptp)) (Some src_addr)
                  (AddPeer src_addr [] [] ptp))"
  using assms by (simp add: HandleP2PMessage_def Let_def AddPeer_def split: prod.splits)

section \<open>The membership loop\<close>

text \<open>
  C4, as stated, fails. In a first pass the endpoint B is new and does not resolve: the
  peer stays as inserted, without address, and nothing is sent. In a second pass on the
  same snapshot B would resolve, but no peer is new, so \<open>IntroducePeers\<close> is not called:
  the state is unchanged, B has no address and no introduction has been sent.
\<close>

theorem retry_counterexample:
  "membership_cycle lab_env [peer_B] node = Inr (node\<lparr>NetworkPeers := [discovered peer_B]\<rparr>)
   \<and> ResolveUDPAddr env_up peer_B = Inr (UDPAddr peer_B)
   \<and> membership_cycle env_up [peer_B] (node\<lparr>NetworkPeers := [discovered peer_B]\<rparr>)
       = Inr (node\<lparr>NetworkPeers := [discovered peer_B]\<rparr>)
   \<and> PeerAddr (discovered peer_B) = None
   \<and> sent (UDPSocket (node\<lparr>NetworkPeers := [discovered peer_B]\<rparr>)) = []"
  by (simp add: membership_cycle_def PurgePeers_def SyncPeers_def IntroducePeers_def
                lab_env_def env_up_def node_def PTPCloud_zero_def discovered_def
                NetworkPeer_zero_def peer_B_def)

lemma SyncPeers_none_new:
  assumes "SyncPeers catched ptp = (0, ptp')"
  shows "ptp' = ptp"
proof -
  from SyncPeers_loop_char [of catched "NetworkPeers ptp" 0] obtain new where
    n: "SyncPeers_loop catched (NetworkPeers ptp) 0 =
          (int (length new),
           NetworkPeers ptp @ map (\<lambda>a. NetworkPeer_zero\<lparr>CleanAddr := a, Unknown := True\<rparr>) new)"
    by auto
  with assms have "new = []" by (simp add: SyncPeers_def)
  with assms n show ?thesis by (simp add: SyncPeers_def)
qed

text \<open>
  C4, amended. A peer whose endpoint fails to resolve in the introduction pass stays in
  the table as it is, unknown. A later pass of the membership loop (when \<open>PurgePeers\<close>
  returns) runs the introduction pass exactly when its \<open>SyncPeers\<close> has inserted a
  new peer: with no new peer the pass ends with the state \<open>PurgePeers\<close> left, nothing
  resolved and nothing sent; with a new peer every unknown peer of the table is tried
  again, and each one that resolves gets its address and is sent the introduction.
\<close>

theorem membership_cycle_retry:
  assumes "PurgePeers LastCatch ptp = Inr ptp1" and "SyncPeers LastCatch ptp1 = (n, ptp2)"
  shows "(\<forall>p\<in>set (NetworkPeers ptp2).
            Unknown p \<and> isl (ResolveUDPAddr env (CleanAddr p)) \<longrightarrow>
            p \<in> set (NetworkPeers (IntroducePeers env ptp2)))
       \<and> (n = 0 \<longrightarrow> membership_cycle env LastCatch ptp = Inr ptp1 \<and> ptp2 = ptp1)
       \<and> (n > 0 \<longrightarrow>
            membership_cycle env LastCatch ptp = Inr (IntroducePeers env ptp2)
            \<and> (\<forall>p\<in>set (NetworkPeers ptp2). \<forall>addr.
                  Unknown p \<and> ResolveUDPAddr env (CleanAddr p) = Inr addr \<longrightarrow>
                  p\<lparr>PeerAddr := Some addr\<rparr> \<in> set (NetworkPeers (IntroducePeers env ptp2))
                  \<and> (PrepareIntroductionMessage (IP ptp2) (Mac ptp2), Some addr)
                       \<in> set (sent (UDPSocket (IntroducePeers env ptp2)))))"
proof (intro conjI impI ballI allI)
  fix p
  assume p: "p \<in> set (NetworkPeers ptp2)"
    and "Unknown p \<and> isl (ResolveUDPAddr env (CleanAddr p))"
  then have "introduce env p = p"
    by (auto simp: introduce_def isl_def)
  with p have "p \<in> introduce env ` set (NetworkPeers ptp2)" by force
  then show "p \<in> set (NetworkPeers (IntroducePeers env ptp2))"
    by (simp add: IntroducePeers_char)
next
  assume "n = 0"
  with assms(2) have e: "ptp2 = ptp1" by (simp add: SyncPeers_none_new)
  with assms \<open>n = 0\<close> show "membership_cycle env LastCatch ptp = Inr ptp1"
    by (simp add: membership_cycle_def)
  from e show "ptp2 = ptp1" .
next
  assume "n > 0"
  with assms show "membership_cycle env LastCatch ptp = Inr (IntroducePeers env ptp2)"
    by (simp add: membership_cycle_def)
next
  fix p addr
  assume p: "p \<in> set (NetworkPeers ptp2)"
    and r: "Unknown p \<and> ResolveUDPAddr env (CleanAddr p) = Inr addr"
  let ?msg = "PrepareIntroductionMessage (IP ptp2) (Mac ptp2)"
  from r have i: "introduce env p = p\<lparr>PeerAddr := Some addr\<rparr>"
    and s: "introductions env ?msg p = [(?msg, Some addr)]"
    by (simp_all add: introduce_def introductions_def)
  from p have "introduce env p \<in> introduce env ` set (NetworkPeers ptp2)" by (rule imageI)
  with i show "p\<lparr>PeerAddr := Some addr\<rparr> \<in> set (NetworkPeers (IntroducePeers env ptp2))"
    by (simp add: IntroducePeers_char)
  from p s have "(?msg, Some addr) \<in> set (concat (map (introductions env ?msg) (NetworkPeers ptp2)))"
    by force
  then show "(?msg, Some addr) \<in> set (sent (UDPSocket (IntroducePeers env ptp2)))"
    by (simp add: IntroducePeers_char)
qed

theorem membership_cycle_retry_witness:
  "PurgePeers [peer_B, peer_A] (node\<lparr>NetworkPeers := [discovered peer_B]\<rparr>)
     = Inr (node\<lparr>NetworkPeers := [discovered peer_B]\<rparr>)
   \<and> SyncPeers [peer_B, peer_A] (node\<lparr>NetworkPeers := [discovered peer_B]\<rparr>)
     = (1, node\<lparr>NetworkPeers := [discovered peer_B, discovered peer_A]\<rparr>)
   \<and> Unknown (discovered peer_B)
   \<and> ResolveUDPAddr env_up (CleanAddr (discovered peer_B)) = Inr (UDPAddr peer_B)
   \<and> membership_cycle env_up [peer_B, peer_A] (node\<lparr>NetworkPeers := [discovered peer_B]\<rparr>)
     = Inr (IntroducePeers env_up (node\<lparr>NetworkPeers := [discovered peer_B, discovered peer_A]\<rparr>))
   \<and> (PrepareIntroductionMessage ''10.0.0.1'' ''06:aa:aa:aa:aa:aa'', Some (UDPAddr peer_B))
       \<in> set (sent (UDPSocket (IntroducePeers env_up
                 (node\<lparr>NetworkPeers := [discovered peer_B, discovered peer_A]\<rparr>))))"
proof -
  let ?S = "node\<lparr>NetworkPeers := [discovered peer_B]\<rparr>"
  let ?S2 = "node\<lparr>NetworkPeers := [discovered peer_B, discovered peer_A]\<rparr>"
  have h1: "PurgePeers [peer_B, peer_A] ?S = Inr ?S"
    by (simp add: PurgePeers_def discovered_def peer_A_def peer_B_def)
  have h2: "SyncPeers [peer_B, peer_A] ?S = (1, ?S2)"
    by (simp add: SyncPeers_def discovered_def peer_A_def peer_B_def)
  have h3: "Unknown (discovered peer_B)"
    by (simp add: discovered_def)
  have h4: "ResolveUDPAddr env_up (CleanAddr (discovered peer_B)) = Inr (UDPAddr peer_B)"
    by (simp add: env_up_def discovered_def)
  have h5: "discovered peer_B \<in> set (NetworkPeers ?S2)" by simp
  have h6: "IP ?S2 = ''10.0.0.1''" "Mac ?S2 = ''06:aa:aa:aa:aa:aa''"
    by (simp_all add: node_def)
  from membership_cycle_retry [OF h1 h2, of env_up] h3 h4 h5
  have "membership_cycle env_up [peer_B, peer_A] ?S = Inr (IntroducePeers env_up ?S2)
        \<and> (PrepareIntroductionMessage (IP ?S2) (Mac ?S2), Some (UDPAddr peer_B))
             \<in> set (sent (UDPSocket (IntroducePeers env_up ?S2)))"
    by fastforce
  with h1 h2 h3 h4 h6 show ?thesis by simp
qed

section \<open>Startup\<close>

lemma fmt_aa: "fmt_02x 0xaa = ''aa''"
  by code_simp

lemma ParseMAC_example: "ParseMAC ''06:aa:aa:aa:aa:aa'' = Inr [0x06, 0xaa, 0xaa, 0xaa, 0xaa, 0xaa]"
proof -
  have "''06:aa:aa:aa:aa:aa'' = ''06:'' @ fmt_02x 0xaa @ '':'' @ fmt_02x 0xaa @ '':''
          @ fmt_02x 0xaa @ '':'' @ fmt_02x 0xaa @ '':'' @ fmt_02x 0xaa"
    by (simp add: fmt_aa)
  then show ?thesis by (simp only: ParseMAC_generated)
qed

lemma CreateDevice_example:
  "CreateDevice lab_env ip mac m device ptp =
     Inr (Some ''open config.yaml: no such file or directory'',
          ptp\<lparr>IP := ip, Mac := mac, Mask := m, DeviceName := device\<rparr>)"
  by (simp add: CreateDevice_def lab_env_def)

text \<open>
  C5. The claim is that every setup error, that of reading \<^verbatim>\<open>config.yaml\<close> included,
  ends the process. With a valid command line and no \<^verbatim>\<open>config.yaml\<close>, \<open>CreateDevice\<close>
  returns the error, \<open>main\<close> does not look at what \<open>CreateDevice\<close> returned, and startup
  goes on to the membership loop with no TAP device and no IP tool.
\<close>

theorem main_startup_ignores_config_error:
  "ReadFile lab_env ''config.yaml'' = Inl ''open config.yaml: no such file or directory''
   \<and> main_startup lab_env ''10.0.0.1'' ''255.255.255.0'' ''06:aa:aa:aa:aa:aa'' ''tap0'' (Inl ''unused'')
       = Running (PTPCloud_zero\<lparr>HardwareAddr := [0x06, 0xaa, 0xaa, 0xaa, 0xaa, 0xaa],
                                IP := ''10.0.0.1'', Mac := ''06:aa:aa:aa:aa:aa'',
                                Mask := ''255.255.255.0'', DeviceName := ''tap0''\<rparr>)"
proof -
  have r: "ReadFile lab_env ''config.yaml'' = Inl ''open config.yaml: no such file or directory''"
    by (simp add: lab_env_def)
  have m: "main_startup lab_env ''10.0.0.1'' ''255.255.255.0'' ''06:aa:aa:aa:aa:aa'' ''tap0'' (Inl ''unused'')
       = Running (PTPCloud_zero\<lparr>HardwareAddr := [0x06, 0xaa, 0xaa, 0xaa, 0xaa, 0xaa],
                                IP := ''10.0.0.1'', Mac := ''06:aa:aa:aa:aa:aa'',
                                Mask := ''255.255.255.0'', DeviceName := ''tap0''\<rparr>)"
    unfolding main_startup_def ParseMAC_example CreateDevice_example
    by (simp add: PTPCloud_zero_def)
  from r m show ?thesis by (rule conjI)
qed

text \<open>
  In general: a configuration that cannot be read or parsed makes \<open>CreateDevice\<close>
  return its error, whatever \<open>CreateDevice\<close> returns \<open>main\<close> goes on, and the four other
  failures end the process with status 1.
\<close>

lemma CreateDevice_config_unreadable:
  "ReadFile env ''config.yaml'' = Inl err \<Longrightarrow>
   CreateDevice env ip mac m device ptp =
     Inr (Some err, ptp\<lparr>IP := ip, Mac := mac, Mask := m, DeviceName := device\<rparr>)"
  by (simp add: CreateDevice_def)

lemma CreateDevice_config_unparsable:
  "ReadFile env ''config.yaml'' = Inr yamlFile \<Longrightarrow>
   yaml_Unmarshal env yamlFile (ptp\<lparr>IP := ip, Mac := mac, Mask := m, DeviceName := device\<rparr>)
     = (ptp', Some err) \<Longrightarrow>
   CreateDevice env ip mac m device ptp = Inr (Some err, ptp')"
  by (simp add: CreateDevice_def)

lemma main_startup_never_checks_CreateDevice:
  "CreateDevice env argIp argMac argMask argDev (PTPCloud_zero\<lparr>HardwareAddr := hw\<rparr>) = Inr (err, ptp)
   \<Longrightarrow> argIp \<noteq> ''none'' \<Longrightarrow> argMask \<noteq> ''none'' \<Longrightarrow> argDev \<noteq> ''none'' \<Longrightarrow> argMac \<noteq> ''none''
   \<Longrightarrow> ParseMAC argMac = Inr hw
   \<Longrightarrow> main_startup env argIp argMask argMac argDev r = Running (ptp\<lparr>UDPSocket := \<lparr>sent = []\<rparr>\<rparr>)"
  by (simp add: main_startup_def)

lemma CreateDevice_fatal:
  assumes "ReadFile env ''config.yaml'' = Inr yamlFile"
    and "yaml_Unmarshal env yamlFile (ptp\<lparr>IP := ip, Mac := mac, Mask := m, DeviceName := device\<rparr>)
           = (ptp', None)"
    and "fst (tuntap_Open env (DeviceName ptp')) = None
         \<or> exec_Run env (IPTool ptp') [''link'', ''set'', ''dev'', DeviceName ptp', ''up''] \<noteq> None
         \<or> exec_Run env (IPTool ptp') [''addr'', ''add'', IP ptp' @ ''/24'', ''dev'', DeviceName ptp'] \<noteq> None
         \<or> exec_Run env (IPTool ptp') [''link'', ''set'', ''dev'', DeviceName ptp', ''address'', mac] \<noteq> None"
  shows "CreateDevice env ip mac m device ptp = Inl (os_Exit 1)"
  using assms by (auto simp: CreateDevice_def Let_def split: prod.splits)

end
